theory Spec2Isabelle
  imports Main "HOL-Library.AList" "HOL-Library.Sublist"
begin

section \<open>The telemetry table\<close>

text \<open>
  The dashboard of \<^verbatim>\<open>src/main.py\<close> is one script over one pandas table. A column of
  the table has one of three element types, as pandas has dtypes: \<^verbatim>\<open>object\<close> (text, as
  \<^verbatim>\<open>read_csv\<close> leaves a column that is not numeric), a numeric dtype, and
  \<^verbatim>\<open>datetime64\<close>. A missing value (NaN, NaT) is \<open>None\<close>. Numbers are floating point in
  the program; no operation of the script but the ground surface computes with them, so
  their type is the parameter \<open>'v\<close>. The type of a parsed timestamp is the parameter \<open>'t\<close>.
  The text of a cell is a Python \<^verbatim>\<open>str\<close>: a list of Unicode code points. The names of
  columns, the titles and the labels, which the script writes as ASCII literals or builds
  from them, are HOL strings; \<open>text_of\<close> is the cell text of such a literal.
\<close>

type_synonym pystr = "int list"

definition text_of :: "string \<Rightarrow> pystr" where
  "text_of s = map of_char s"

datatype error = KeyError | AttributeError | ValueError | TypeError | IndexError | ReadError

datatype ('v, 't) column =
    ObjCol "pystr option list"
  | NumCol "'v option list"
  | TimeCol "'t option list"

datatype ('v, 't) cell =
    ObjCell "pystr option"
  | NumCell "'v option"
  | TimeCell "'t option"

text \<open>
  A table is its row count (\<^verbatim>\<open>len(df)\<close>) and its columns by name, in order. In a pandas
  table every column has as many entries as the table has rows: \<open>wf_table\<close>.
\<close>

record ('v, 't) table =
  nrows :: nat
  columns :: "(string \<times> ('v, 't) column) list"

fun col_len :: "('v, 't) column \<Rightarrow> nat" where
  "col_len (ObjCol xs) = length xs"
| "col_len (NumCol xs) = length xs"
| "col_len (TimeCol xs) = length xs"

definition wf_table :: "('v, 't) table \<Rightarrow> bool" where
  "wf_table df = list_all (\<lambda>(c, col). col_len col = nrows df) (columns df)"

text \<open>\<^verbatim>\<open>s[:k]\<close>: the first \<open>k\<close> entries of a series, all of them when it has fewer.\<close>

fun col_take :: "nat \<Rightarrow> ('v, 't) column \<Rightarrow> ('v, 't) column" where
  "col_take k (ObjCol xs) = ObjCol (take k xs)"
| "col_take k (NumCol xs) = NumCol (take k xs)"
| "col_take k (TimeCol xs) = TimeCol (take k xs)"

fun col_nth :: "('v, 't) column \<Rightarrow> nat \<Rightarrow> ('v, 't) cell" where
  "col_nth (ObjCol xs) i = ObjCell (xs ! i)"
| "col_nth (NumCol xs) i = NumCell (xs ! i)"
| "col_nth (TimeCol xs) i = TimeCell (xs ! i)"

text \<open>
  \<^verbatim>\<open>s[i]\<close> looks the label \<open>i\<close> up in the index \<open>0, 1, ..., n - 1\<close> that \<^verbatim>\<open>read_csv\<close>
  gives a table and raises \<^verbatim>\<open>KeyError\<close> for a label that is not there; \<^verbatim>\<open>s.iloc[i]\<close>
  is positional and raises \<^verbatim>\<open>IndexError\<close>. The script only passes indices that are not
  negative.
\<close>

definition series_getitem :: "('v, 't) column \<Rightarrow> nat \<Rightarrow> error + ('v, 't) cell" where
  "series_getitem col i = (if i < col_len col then Inr (col_nth col i) else Inl KeyError)"

definition series_iloc :: "('v, 't) column \<Rightarrow> nat \<Rightarrow> error + ('v, 't) cell" where
  "series_iloc col i = (if i < col_len col then Inr (col_nth col i) else Inl IndexError)"

text \<open>\<^verbatim>\<open>df[c]\<close> raises \<^verbatim>\<open>KeyError\<close>, \<^verbatim>\<open>df.c\<close> raises \<^verbatim>\<open>AttributeError\<close> when no column is named \<open>c\<close>.\<close>

definition getitem :: "('v, 't) table \<Rightarrow> string \<Rightarrow> error + ('v, 't) column" where
  "getitem df c = (case map_of (columns df) c of None \<Rightarrow> Inl KeyError | Some col \<Rightarrow> Inr col)"

definition getattr :: "('v, 't) table \<Rightarrow> string \<Rightarrow> error + ('v, 't) column" where
  "getattr df c = (case map_of (columns df) c of None \<Rightarrow> Inl AttributeError | Some col \<Rightarrow> Inr col)"

text \<open>\<^verbatim>\<open>df[c] = col\<close> overwrites the column named \<open>c\<close> in place, or appends a new one.\<close>

definition setitem :: "('v, 't) table \<Rightarrow> string \<Rightarrow> ('v, 't) column \<Rightarrow> ('v, 't) table" where
  "setitem df c col = df\<lparr>columns := AList.update c col (columns df)\<rparr>"

text \<open>Sequencing of steps that may raise: the first exception ends the computation.\<close>

definition and_then :: "error + 'a \<Rightarrow> ('a \<Rightarrow> error + 'b) \<Rightarrow> error + 'b" where
  "and_then r f = (case r of Inl e \<Rightarrow> Inl e | Inr a \<Rightarrow> f a)"

section \<open>Python's \<^verbatim>\<open>range\<close> and \<^verbatim>\<open>str\<close>\<close>

text \<open>
  \<^verbatim>\<open>range(start, stop, step)\<close> for a positive step. Python raises \<^verbatim>\<open>ValueError\<close> for step
  zero; the script's steps are \<^verbatim>\<open>5\<close> and \<^verbatim>\<open>max(1, ...)\<close>, so that case is the empty list
  here and is never reached.
\<close>

function py_range :: "nat \<Rightarrow> nat \<Rightarrow> nat \<Rightarrow> nat list" where
  "py_range start stop step =
     (if step = 0 then []
      else if start < stop then start # py_range (start + step) stop step
      else [])"
  by pat_completeness auto
termination
  by (relation "measure (\<lambda>(start, stop, step). stop - start)") auto

declare py_range.simps [simp del]

text \<open>\<^verbatim>\<open>str(k)\<close> of an integer that is not negative: its decimal digits.\<close>

definition digit_char :: "nat \<Rightarrow> char" where
  "digit_char d = char_of (48 + d)"

function str_nat :: "nat \<Rightarrow> string" where
  "str_nat n = (if n < 10 then [digit_char n] else str_nat (n div 10) @ [digit_char (n mod 10)])"
  by pat_completeness auto
termination
  by (relation "measure id") auto

declare str_nat.simps [simp del]

section \<open>Figures\<close>

text \<open>
  What the script hands to plotly, without the constant styling (colours, fonts, button
  layout, camera): a figure has its initial traces, its title, the steps of its slider and
  its animation frames. The ground surface holds three grids of numbers.
\<close>

datatype ('v, 't) trace =
    Surface "'v list list" "'v list list" "'v list list"
  | Scatter3d "('v, 't) column" "('v, 't) column" "('v, 't) column" string string
  | Scatter3d_point "('v, 't) cell" "('v, 't) cell" "('v, 't) cell" string string
  | Scatter "('v, 't) column" "('v, 't) column" string string

record ('v, 't) frame =
  frame_data :: "('v, 't) trace list"
  frame_name :: string

record slider_step =
  step_args :: string
  step_label :: string

record ('v, 't) figure =
  fig_data :: "('v, 't) trace list"
  fig_title :: string
  fig_steps :: "slider_step list"
  fig_frames :: "('v, 't) frame list"

section \<open>The 2D frame builder \<^verbatim>\<open>create_time_slider_frames\<close>\<close>

text \<open>
  Lines 219 to 220 and 231 to 232: one line trace per requested column, over the first
  \<open>k\<close> rows. Each turn of the loop reads \<^verbatim>\<open>df['datetime']\<close> and then \<^verbatim>\<open>df[col]\<close>.
\<close>

fun scatter_traces ::
  "('v, 't) table \<Rightarrow> string list \<Rightarrow> nat \<Rightarrow> error + ('v, 't) trace list" where
  "scatter_traces df [] k = Inr []"
| "scatter_traces df (col # y_cols) k =
     and_then (getitem df ''datetime'') (\<lambda>x.
     and_then (getitem df col) (\<lambda>y.
     and_then (scatter_traces df y_cols k) (\<lambda>rest.
       Inr (Scatter (col_take k x) (col_take k y) ''lines'' col # rest))))"

text \<open>
  Line 227: \<^verbatim>\<open>df['datetime'].iloc[k-1].strftime("%H:%M:%S")\<close>. The formatting of a
  timestamp is pandas', the parameter \<open>strftime\<close>. \<^verbatim>\<open>NaT.strftime\<close> raises
  \<^verbatim>\<open>ValueError\<close>; text and numbers have no \<^verbatim>\<open>strftime\<close>.
\<close>

fun cell_strftime :: "('t \<Rightarrow> string) \<Rightarrow> ('v, 't) cell \<Rightarrow> error + string" where
  "cell_strftime strftime (TimeCell (Some t)) = Inr (strftime t)"
| "cell_strftime strftime (TimeCell None) = Inl ValueError"
| "cell_strftime strftime (ObjCell s) = Inl AttributeError"
| "cell_strftime strftime (NumCell v) = Inl AttributeError"

definition slider_label :: "('t \<Rightarrow> string) \<Rightarrow> ('v, 't) table \<Rightarrow> nat \<Rightarrow> error + string" where
  "slider_label strftime df k =
     and_then (getitem df ''datetime'') (\<lambda>x.
     and_then (series_iloc x (k - 1)) (\<lambda>c. cell_strftime strftime c))"

text \<open>
  Lines 217 to 228, the loop over \<open>k\<close>: the frame is appended, then the slider step,
  whose label is computed last.
\<close>

fun frame_loop ::
  "('t \<Rightarrow> string) \<Rightarrow> ('v, 't) table \<Rightarrow> string list \<Rightarrow> nat list \<Rightarrow>
   ('v, 't) frame list \<Rightarrow> slider_step list \<Rightarrow>
   error + (('v, 't) frame list \<times> slider_step list)" where
  "frame_loop strftime df y_cols [] frames slider_steps = Inr (frames, slider_steps)"
| "frame_loop strftime df y_cols (k # ks) frames slider_steps =
     and_then (scatter_traces df y_cols k) (\<lambda>frame_data.
     and_then (slider_label strftime df k) (\<lambda>label.
       frame_loop strftime df y_cols ks
         (frames @ [\<lparr>frame_data = frame_data, frame_name = str_nat k\<rparr>])
         (slider_steps @ [\<lparr>step_args = str_nat k, step_label = label\<rparr>])))"

definition create_time_slider_frames ::
  "('t \<Rightarrow> string) \<Rightarrow> ('v, 't) table \<Rightarrow> string list \<Rightarrow> string \<Rightarrow> error + ('v, 't) figure" where
  "create_time_slider_frames strftime df y_cols y_label =
     (let n_points = nrows df;
          step_size = max 1 (n_points div 30)
      in and_then (frame_loop strftime df y_cols (py_range step_size (n_points + 1) step_size) [] [])
           (\<lambda>(frames, slider_steps).
         and_then (scatter_traces df y_cols step_size) (\<lambda>initial_data.
           Inr \<lparr>fig_data = initial_data,
                fig_title = y_label @ '' over Time with Time Slider'',
                fig_steps = slider_steps,
                fig_frames = frames\<rparr>)))"

section \<open>Timestamps (lines 62 to 70)\<close>

text \<open>
  Line 62: \<^verbatim>\<open>df['time'].str.replace(r':(?=\d{3}$)', '.', regex=True)\<close>. The pattern matches
  a colon when the rest of the text after it is three digits and then the end, and
  Python's \<^verbatim>\<open>$\<close> also matches before a line feed that is the last character. Every match
  is replaced; a match is one character long, so the scan goes on at the next character.
  The class \<^verbatim>\<open>\d\<close> of a \<^verbatim>\<open>str\<close> pattern is the Unicode decimal digits: blocks of ten
  code points for the digits 0 to 9 of one script, listed by the code point of their zero
  (Unicode 14.0, as in CPython 3.11). The colon is code point 58, the period 46, the line
  feed 10.
\<close>

definition digit_zeros :: "int list" where
  "digit_zeros =
     [
      48, 1632, 1776, 1984, 2406, 2534, 2662, 2790, 2918, 3046,
      3174, 3302, 3430, 3558, 3664, 3792, 3872, 4160, 4240, 6112,
      6160, 6470, 6608, 6784, 6800, 6992, 7088, 7232, 7248, 42528,
      43216, 43264, 43472, 43504, 43600, 44016, 65296, 66720, 68912, 69734,
      69872, 69942, 70096, 70384, 70736, 70864, 71248, 71360, 71472, 71904,
      72016, 72784, 73040, 73120, 92768, 92864, 93008, 120782, 120792, 120802,
      120812, 120822, 123200, 123632, 125264, 130032
     ]"

definition is_digit :: "int \<Rightarrow> bool" where
  "is_digit c = list_ex (\<lambda>z. z \<le> c \<and> c < z + 10) digit_zeros"

fun lookahead :: "pystr \<Rightarrow> bool" where
  "lookahead [a, b, c] = (is_digit a \<and> is_digit b \<and> is_digit c)"
| "lookahead [a, b, c, nl] = (is_digit a \<and> is_digit b \<and> is_digit c \<and> nl = 10)"
| "lookahead rest = False"

fun sub_colon :: "pystr \<Rightarrow> pystr" where
  "sub_colon [] = []"
| "sub_colon (c # rest) = (if c = 58 \<and> lookahead rest then 46 else c) # sub_colon rest"

text \<open>
  The \<^verbatim>\<open>.str\<close> accessor raises \<^verbatim>\<open>AttributeError\<close> on a column that is not text; a missing
  value stays missing.
\<close>

fun str_replace :: "('v, 't) column \<Rightarrow> error + ('v, 't) column" where
  "str_replace (ObjCol xs) = Inr (ObjCol (map (map_option sub_colon) xs))"
| "str_replace (NumCol xs) = Inl AttributeError"
| "str_replace (TimeCol xs) = Inl AttributeError"

text \<open>
  Line 65, \<^verbatim>\<open>df['date'] + ' ' + df['time']\<close>: adding text to a text column appends it to
  every entry that is not missing, and raises \<^verbatim>\<open>TypeError\<close> on a column of numbers or
  timestamps; adding two text columns joins them entry by entry, and the sum is missing
  where either entry is.
\<close>

fun add_str :: "('v, 't) column \<Rightarrow> pystr \<Rightarrow> error + pystr option list" where
  "add_str (ObjCol xs) s = Inr (map (map_option (\<lambda>x. x @ s)) xs)"
| "add_str (NumCol xs) s = Inl TypeError"
| "add_str (TimeCol xs) s = Inl TypeError"

fun concat_opt :: "pystr option \<Rightarrow> pystr option \<Rightarrow> pystr option" where
  "concat_opt (Some x) (Some y) = Some (x @ y)"
| "concat_opt x y = None"

fun add_series :: "pystr option list \<Rightarrow> ('v, 't) column \<Rightarrow> error + pystr option list" where
  "add_series xs (ObjCol ys) = Inr (map2 concat_opt xs ys)"
| "add_series xs (NumCol ys) = Inl TypeError"
| "add_series xs (TimeCol ys) = Inl TypeError"

text \<open>
  \<^verbatim>\<open>pd.to_datetime(s, errors='coerce')\<close> is pandas': the parameter \<open>to_datetime\<close> takes
  the whole column of texts and returns the column of timestamps, \<open>None\<close> where pandas
  coerces an entry to NaT, as it does a missing entry and a text it cannot read. It is one
  call on the column: what pandas makes of one entry can depend on the other entries (it
  infers one format from the first entry and coerces the entries of another format), so
  the parameter is a function of the column and not of one text.
\<close>

definition fix_time :: "('v, 't) table \<Rightarrow> error + ('v, 't) table" where
  "fix_time df =
     and_then (getitem df ''time'') (\<lambda>time.
     and_then (str_replace time) (\<lambda>fixed.
       Inr (setitem df ''time'' fixed)))"

definition merge_datetime ::
  "(pystr option list \<Rightarrow> 't option list) \<Rightarrow> ('v, 't) table \<Rightarrow> error + ('v, 't) table" where
  "merge_datetime to_datetime df =
     and_then (getitem df ''date'') (\<lambda>date.
     and_then (add_str date (text_of '' '')) (\<lambda>date_sp.
     and_then (getitem df ''time'') (\<lambda>time.
     and_then (add_series date_sp time) (\<lambda>combined.
       Inr (setitem df ''datetime'' (TimeCol (to_datetime combined)))))))"

definition process_time ::
  "(pystr option list \<Rightarrow> 't option list) \<Rightarrow> ('v, 't) table \<Rightarrow> error + ('v, 't) table" where
  "process_time to_datetime df = and_then (fix_time df) (merge_datetime to_datetime)"

text \<open>Lines 68 to 70: \<^verbatim>\<open>isnull()\<close> and the selection of rows by a boolean series.\<close>

fun isnull :: "('v, 't) column \<Rightarrow> bool list" where
  "isnull (ObjCol xs) = map Option.is_none xs"
| "isnull (NumCol xs) = map Option.is_none xs"
| "isnull (TimeCol xs) = map Option.is_none xs"

definition select :: "bool list \<Rightarrow> 'a list \<Rightarrow> 'a list" where
  "select keep xs = map snd (filter fst (zip keep xs))"

fun col_select :: "bool list \<Rightarrow> ('v, 't) column \<Rightarrow> ('v, 't) column" where
  "col_select keep (ObjCol xs) = ObjCol (select keep xs)"
| "col_select keep (NumCol xs) = NumCol (select keep xs)"
| "col_select keep (TimeCol xs) = TimeCol (select keep xs)"

definition filter_rows :: "bool list \<Rightarrow> ('v, 't) table \<Rightarrow> ('v, 't) table" where
  "filter_rows keep df =
     \<lparr>nrows = length (filter id (take (nrows df) keep)),
      columns = map (\<lambda>(c, col). (c, col_select keep col)) (columns df)\<rparr>"

section \<open>The 3D trajectory (lines 79 to 207)\<close>

text \<open>
  The ground surface takes minima and maxima of three columns and subtracts ten, in
  floating point: pandas' reductions and the subtraction are the parameters \<open>smin\<close>,
  \<open>smax\<close> and \<open>sub10\<close>.
\<close>

definition ground_plane ::
  "(('v, 't) column \<Rightarrow> error + 'v) \<Rightarrow> (('v, 't) column \<Rightarrow> error + 'v) \<Rightarrow> ('v \<Rightarrow> 'v) \<Rightarrow>
   ('v, 't) table \<Rightarrow> error + ('v, 't) trace" where
  "ground_plane smin smax sub10 df =
     and_then (getattr df ''gps_alt'') (\<lambda>gps_alt.
     and_then (smin gps_alt) (\<lambda>zmin.
     and_then (getattr df ''lon'') (\<lambda>lon.
     and_then (smin lon) (\<lambda>xmin.
     and_then (smax lon) (\<lambda>xmax.
     and_then (getattr df ''lat'') (\<lambda>lat.
     and_then (smin lat) (\<lambda>ymin.
     and_then (smax lat) (\<lambda>ymax.
       Inr (Surface (replicate 2 (replicate 2 (sub10 zmin)))
                    [[xmin, xmax], [xmin, xmax]]
                    [[ymin, ymin], [ymax, ymax]])))))))))"

text \<open>The path so far, \<^verbatim>\<open>df.lon[:k]\<close> and so on, and the rocket at row \<open>i\<close>, \<^verbatim>\<open>df.lon[i]\<close>.\<close>

definition path_trace :: "('v, 't) table \<Rightarrow> nat \<Rightarrow> error + ('v, 't) trace" where
  "path_trace df k =
     and_then (getattr df ''lon'') (\<lambda>lon.
     and_then (getattr df ''lat'') (\<lambda>lat.
     and_then (getattr df ''gps_alt'') (\<lambda>gps_alt.
       Inr (Scatter3d (col_take k lon) (col_take k lat) (col_take k gps_alt)
              ''lines'' ''Rocket Path''))))"

definition rocket_trace :: "('v, 't) table \<Rightarrow> nat \<Rightarrow> error + ('v, 't) trace" where
  "rocket_trace df i =
     and_then (getattr df ''lon'') (\<lambda>lon.
     and_then (series_getitem lon i) (\<lambda>x.
     and_then (getattr df ''lat'') (\<lambda>lat.
     and_then (series_getitem lat i) (\<lambda>y.
     and_then (getattr df ''gps_alt'') (\<lambda>gps_alt.
     and_then (series_getitem gps_alt i) (\<lambda>z.
       Inr (Scatter3d_point x y z ''text+markers'' ''Rocket'')))))))"

fun trajectory_frames ::
  "('v, 't) trace \<Rightarrow> ('v, 't) table \<Rightarrow> nat list \<Rightarrow> error + ('v, 't) frame list" where
  "trajectory_frames ground df [] = Inr []"
| "trajectory_frames ground df (k # ks) =
     and_then (path_trace df k) (\<lambda>path.
     and_then (rocket_trace df (k - 1)) (\<lambda>rocket.
     and_then (trajectory_frames ground df ks) (\<lambda>rest.
       Inr (\<lparr>frame_data = [ground, path, rocket], frame_name = str_nat k\<rparr> # rest))))"

definition trajectory_steps :: "nat list \<Rightarrow> slider_step list" where
  "trajectory_steps ks =
     map (\<lambda>k. \<lparr>step_args = str_nat k, step_label = str_nat (k * 50) @ '' ms''\<rparr>) ks"

definition trajectory_figure :: "('v, 't) trace \<Rightarrow> ('v, 't) table \<Rightarrow> error + ('v, 't) figure" where
  "trajectory_figure ground df =
     and_then (trajectory_frames ground df (py_range 10 (nrows df) 5)) (\<lambda>frames.
     and_then (path_trace df 10) (\<lambda>path.
     and_then (rocket_trace df 9) (\<lambda>rocket.
       Inr \<lparr>fig_data = [ground, path, rocket],
            fig_title = ''Live Rocket Trajectory with Time Slider'',
            fig_steps = trajectory_steps (py_range 10 (nrows df) 5),
            fig_frames = frames\<rparr>)))"

section \<open>The script\<close>

text \<open>
  What the script calls and does not define is a parameter, collected in one record:
  \<^verbatim>\<open>pd.read_csv\<close> on a path or on an uploaded file, the coercing
  \<^verbatim>\<open>pd.to_datetime\<close> of a column, \<^verbatim>\<open>strftime("%H:%M:%S")\<close>, the reductions \<^verbatim>\<open>min\<close> and \<^verbatim>\<open>max\<close> of a series,
  the subtraction of ten, and \<^verbatim>\<open>px.line\<close> and \<^verbatim>\<open>px.scatter\<close> (table, x column, y columns,
  title).
\<close>

datatype 'u source = Path string | Upload 'u

record ('u, 'v, 't) lib =
  lib_read_csv :: "'u source \<Rightarrow> error + ('v, 't) table"
  lib_to_datetime :: "pystr option list \<Rightarrow> 't option list"
  lib_strftime :: "'t \<Rightarrow> string"
  lib_min :: "('v, 't) column \<Rightarrow> error + 'v"
  lib_max :: "('v, 't) column \<Rightarrow> error + 'v"
  lib_sub10 :: "'v \<Rightarrow> 'v"
  lib_px_line :: "('v, 't) table \<Rightarrow> string \<Rightarrow> string list \<Rightarrow> string \<Rightarrow> error + ('v, 't) figure"
  lib_px_scatter :: "('v, 't) table \<Rightarrow> string \<Rightarrow> string list \<Rightarrow> string \<Rightarrow> error + ('v, 't) figure"

text \<open>
  Lines 13 to 17 and 33 to 44. \<^verbatim>\<open>load_data\<close> is \<^verbatim>\<open>read_csv\<close> behind streamlit's cache,
  which returns what the call returned before for the same path.
\<close>

definition DATA_SOURCES :: "(string \<times> string) list" where
  "DATA_SOURCES =
     [(''Ideal Launch'', ''database/ideal_rocket_launch.csv''),
      (''Sensor Data'', ''database/sensor_data_mock.csv'')]"

definition load_data :: "('u, 'v, 't) lib \<Rightarrow> string \<Rightarrow> error + ('v, 't) table" where
  "load_data L db_path = lib_read_csv L (Path db_path)"

definition load_dataset ::
  "('u, 'v, 't) lib \<Rightarrow> string \<Rightarrow> 'u option \<Rightarrow> error + (('v, 't) table \<times> string)" where
  "load_dataset L selected_dataset uploaded_file =
     (case uploaded_file of
        Some f \<Rightarrow> and_then (lib_read_csv L (Upload f)) (\<lambda>df. Inr (df, ''Uploaded Data''))
      | None \<Rightarrow>
          (case map_of DATA_SOURCES selected_dataset of
             None \<Rightarrow> Inl KeyError
           | Some DB_PATH \<Rightarrow> and_then (load_data L DB_PATH) (\<lambda>df. Inr (df, selected_dataset))))"

text \<open>
  What the page shows, in order, and how the run ends: \<open>Running\<close> until \<^verbatim>\<open>st.stop()\<close>
  or an exception that nothing catches ends it; a run that is still \<open>Running\<close> after the
  last line has executed every line. The pictographs in the script's titles are left out
  of the texts.
\<close>

datatype ('v, 't) ui =
    Title string
  | Header string
  | Markdown string
  | Write string
  | Warning string
  | Dataframe "('v, 't) table"
  | Subheader string
  | PlotlyChart "('v, 't) figure"

datatype ending = Running | Stopped | Raised error

record ('v, 't) state =
  shown :: "('v, 't) ui list"
  ending :: ending
  current :: "('v, 't) table"

definition emits :: "('v, 't) ui list \<Rightarrow> ('v, 't) state \<Rightarrow> ('v, 't) state" where
  "emits us s = s\<lparr>shown := shown s @ us\<rparr>"

definition raise_or ::
  "error + 'a \<Rightarrow> ('a \<Rightarrow> ('v, 't) state \<Rightarrow> ('v, 't) state) \<Rightarrow> ('v, 't) state \<Rightarrow> ('v, 't) state" where
  "raise_or r f s = (case r of Inl e \<Rightarrow> s\<lparr>ending := Raised e\<rparr> | Inr a \<Rightarrow> f a s)"

definition plotly_chart :: "error + ('v, 't) figure \<Rightarrow> ('v, 't) state \<Rightarrow> ('v, 't) state" where
  "plotly_chart r = raise_or r (\<lambda>fig. emits [PlotlyChart fig])"

definition running :: "(('v, 't) state \<Rightarrow> ('v, 't) state) \<Rightarrow> ('v, 't) state \<Rightarrow> ('v, 't) state" where
  "running p s = (if ending s = Running then p s else s)"

text \<open>Lines 47 to 51.\<close>

definition report :: "string \<Rightarrow> ('v, 't) state \<Rightarrow> ('v, 't) state" where
  "report dataset_name s =
     emits [Markdown (''### Currently loaded dataset: **'' @ dataset_name @ ''**''),
            Write (''Dataset: '' @ dataset_name),
            Write (''Total Records: '' @ str_nat (nrows (current s)))] s"

text \<open>Lines 53 to 55: \<^verbatim>\<open>df.empty\<close> holds of a table with no row or with no column.\<close>

definition df_empty :: "('v, 't) table \<Rightarrow> bool" where
  "df_empty df = (nrows df = 0 \<or> columns df = [])"

definition empty_check :: "('v, 't) state \<Rightarrow> ('v, 't) state" where
  "empty_check s =
     (if df_empty (current s)
      then (emits [Warning ''No data found in dataset.''] s)\<lparr>ending := Stopped\<rparr>
      else s)"

text \<open>Lines 62, 65 and 68 to 70.\<close>

definition fix_time_line :: "('v, 't) state \<Rightarrow> ('v, 't) state" where
  "fix_time_line s = raise_or (fix_time (current s)) (\<lambda>df s'. s'\<lparr>current := df\<rparr>) s"

definition merge_datetime_line :: "('u, 'v, 't) lib \<Rightarrow> ('v, 't) state \<Rightarrow> ('v, 't) state" where
  "merge_datetime_line L s =
     raise_or (merge_datetime (lib_to_datetime L) (current s)) (\<lambda>df s'. s'\<lparr>current := df\<rparr>) s"

definition parsing_issues :: "('v, 't) state \<Rightarrow> ('v, 't) state" where
  "parsing_issues s =
     raise_or (getitem (current s) ''datetime'')
       (\<lambda>dt. if list_ex id (isnull dt)
             then emits [Warning ''Some datetime values could not be parsed.'',
                         Dataframe (filter_rows (isnull dt) (current s))]
             else id) s"

text \<open>Lines 79 to 207.\<close>

definition trajectory_chart :: "('u, 'v, 't) lib \<Rightarrow> ('v, 't) state \<Rightarrow> ('v, 't) state" where
  "trajectory_chart L s =
     plotly_chart
       (and_then (ground_plane (lib_min L) (lib_max L) (lib_sub10 L) (current s))
          (\<lambda>ground. trajectory_figure ground (current s))) s"

text \<open>Lines 266 to 308: a subheader, then the figure is built and handed to the page.\<close>

definition live_chart ::
  "('u, 'v, 't) lib \<Rightarrow> string \<Rightarrow> string list \<Rightarrow> string \<Rightarrow> ('v, 't) state \<Rightarrow> ('v, 't) state" where
  "live_chart L sub y_cols y_label s =
     plotly_chart (create_time_slider_frames (lib_strftime L) (current s) y_cols y_label)
       (emits [Subheader sub] s)"

definition static_chart ::
  "(('v, 't) table \<Rightarrow> string \<Rightarrow> string list \<Rightarrow> string \<Rightarrow> error + ('v, 't) figure) \<Rightarrow>
   string \<Rightarrow> string list \<Rightarrow> string \<Rightarrow> ('v, 't) state \<Rightarrow> ('v, 't) state" where
  "static_chart px sub ys title s =
     plotly_chart (px (current s) ''datetime'' ys title) (emits [Subheader sub] s)"

definition steps :: "('u, 'v, 't) lib \<Rightarrow> string \<Rightarrow> (('v, 't) state \<Rightarrow> ('v, 't) state) list" where
  "steps L dataset_name =
     [report dataset_name,
      empty_check,
      fix_time_line,
      merge_datetime_line L,
      parsing_issues,
      trajectory_chart L,
      emits [Subheader ''Live Graphs Streaming data''],
      live_chart L ''Altitude over Time'' [''alt''] ''Altitude'',
      live_chart L ''Accelerometer Data'' [''acc_x'', ''acc_y'', ''acc_z''] ''Acceleration'',
      live_chart L ''Orientation (Euler Angles)'' [''eu_x'', ''eu_y'', ''eu_z''] ''Orientation'',
      live_chart L ''Valve State Over Time'' [''valve_state''] ''Valve State'',
      emits [Subheader ''Static Graphs all data''],
      static_chart (lib_px_line L) ''Altitude over Time'' [''alt''] ''Altitude vs Time'',
      static_chart (lib_px_line L) ''Accelerometer Data'' [''acc_x'', ''acc_y'', ''acc_z'']
        ''Acceleration over Time'',
      static_chart (lib_px_line L) ''Orientation (Euler Angles)'' [''eu_x'', ''eu_y'', ''eu_z'']
        ''Orientation over Time'',
      static_chart (lib_px_scatter L) ''Valve State Over Time'' [''valve_state''] ''Valve State'',
      emits [Markdown ''---'',
             Markdown ''Developed with  using Streamlit and Plotly, HAHAHAHA'']]"

text \<open>
  The script from line 47 on, on the loaded table: each step runs only while the run has
  not ended. The title and the sidebar header (lines 22 and 25) are shown before the
  table is loaded.
\<close>

definition script :: "('u, 'v, 't) lib \<Rightarrow> ('v, 't) table \<Rightarrow> string \<Rightarrow> ('v, 't) state" where
  "script L df dataset_name =
     foldl (\<lambda>s p. running p s)
       \<lparr>shown = [Title ''Rocket Telemetry Dashboard'', Header ''Flight Data Filters''],
        ending = Running, current = df\<rparr>
       (steps L dataset_name)"

text \<open>
  The whole page run: the selected bundled dataset, the uploaded file if any. \<open>Inl\<close> is
  an exception of the loading itself.
\<close>

definition main :: "('u, 'v, 't) lib \<Rightarrow> string \<Rightarrow> 'u option \<Rightarrow> error + ('v, 't) state" where
  "main L selected_dataset uploaded_file =
     and_then (load_dataset L selected_dataset uploaded_file)
       (\<lambda>(df, dataset_name). Inr (script L df dataset_name))"

section \<open>Notions of the statements\<close>

text \<open>
  The column named \<open>c\<close> of a table that has one; the traces over the first \<open>k\<close> rows of
  the requested columns and the frame named \<^verbatim>\<open>str(k)\<close> that holds them, which is what the
  frame builder is specified to emit for the bound \<open>k\<close>.
\<close>

definition column_of :: "('v, 't) table \<Rightarrow> string \<Rightarrow> ('v, 't) column" where
  "column_of df c = the (map_of (columns df) c)"

definition prefix_traces :: "('v, 't) table \<Rightarrow> string list \<Rightarrow> nat \<Rightarrow> ('v, 't) trace list" where
  "prefix_traces df y_cols k =
     map (\<lambda>c. Scatter (col_take k (column_of df ''datetime'')) (col_take k (column_of df c))
                ''lines'' c) y_cols"

definition prefix_frame :: "('v, 't) table \<Rightarrow> string list \<Rightarrow> nat \<Rightarrow> ('v, 't) frame" where
  "prefix_frame df y_cols k = \<lparr>frame_data = prefix_traces df y_cols k, frame_name = str_nat k\<rparr>"

text \<open>One series is an initial part of another; one line trace is an initial part of another.\<close>

fun col_prefix :: "('v, 't) column \<Rightarrow> ('v, 't) column \<Rightarrow> bool" where
  "col_prefix (ObjCol xs) (ObjCol ys) = prefix xs ys"
| "col_prefix (NumCol xs) (NumCol ys) = prefix xs ys"
| "col_prefix (TimeCol xs) (TimeCol ys) = prefix xs ys"
| "col_prefix a b = False"

fun trace_prefix :: "('v, 't) trace \<Rightarrow> ('v, 't) trace \<Rightarrow> bool" where
  "trace_prefix (Scatter x y m c) (Scatter x' y' m' c') =
     (col_prefix x x' \<and> col_prefix y y' \<and> m = m' \<and> c = c')"
| "trace_prefix a b = False"

text \<open>The figures among what the page shows.\<close>

fun charts :: "('v, 't) ui list \<Rightarrow> ('v, 't) figure list" where
  "charts [] = []"
| "charts (PlotlyChart fig # us) = fig # charts us"
| "charts (u # us) = charts us"

text \<open>The frame of the trajectory animation for the bound \<open>k\<close>.\<close>

definition trajectory_frame :: "('v, 't) trace \<Rightarrow> ('v, 't) table \<Rightarrow> nat \<Rightarrow> ('v, 't) frame" where
  "trajectory_frame ground df k =
     \<lparr>frame_data =
        [ground,
         Scatter3d (col_take k (column_of df ''lon'')) (col_take k (column_of df ''lat''))
           (col_take k (column_of df ''gps_alt'')) ''lines'' ''Rocket Path'',
         Scatter3d_point (col_nth (column_of df ''lon'') (k - 1)) (col_nth (column_of df ''lat'') (k - 1))
           (col_nth (column_of df ''gps_alt'') (k - 1)) ''text+markers'' ''Rocket''],
      frame_name = str_nat k\<rparr>"

text \<open>
  The text of one row that is parsed, in the words of the specification: the date, a space
  and the normalised time; missing when the date or the time is.
\<close>

definition combined_text :: "pystr option \<Rightarrow> pystr option \<Rightarrow> pystr option" where
  "combined_text d t =
     (case (d, t) of
        (Some date, Some time) \<Rightarrow> Some (date @ text_of '' '' @ sub_colon time)
      | _ \<Rightarrow> None)"

text \<open>A step of the script that leaves the table as it is.\<close>

definition read_only :: "(('v, 't) state \<Rightarrow> ('v, 't) state) \<Rightarrow> bool" where
  "read_only p = (\<forall>s. current (p s) = current s)"

section \<open>Example data\<close>

text \<open>
  A stand-in for the parameters, for running the model on concrete tables: numbers are
  integers, a timestamp is its text, an uploaded file is its table. The stand-in for
  \<^verbatim>\<open>pd.to_datetime\<close> knows two formats, \<^verbatim>\<open>2024-05-01 12:00:01.250\<close> and \<^verbatim>\<open>2024-05-01 12:00:02\<close>,
  and does on them what pandas does: the format of the column is that of its first entry
  that is not missing, and an entry in the other format or in none is NaT; when the first
  entry is in neither format, every entry is read on its own.
\<close>

fun fits :: "string \<Rightarrow> pystr \<Rightarrow> bool" where
  "fits [] [] = True"
| "fits (p # ps) (c # cs) =
     ((if p = CHR ''d'' then 48 \<le> c \<and> c \<le> 57 else c = of_char p) \<and> fits ps cs)"
| "fits ps cs = False"

definition demo_format :: "pystr \<Rightarrow> nat" where
  "demo_format s =
     (if fits ''dddd-dd-dd dd:dd:dd.ddd'' s then 2
      else if fits ''dddd-dd-dd dd:dd:dd'' s then 1
      else 0)"

definition demo_to_datetime :: "pystr option list \<Rightarrow> pystr option list" where
  "demo_to_datetime xs =
     (case List.map_filter id xs of
        [] \<Rightarrow> map (\<lambda>x. None) xs
      | first # others \<Rightarrow>
          (if demo_format first = 0
           then map (\<lambda>x. Option.bind x (\<lambda>s. if demo_format s = 0 then None else Some s)) xs
           else map (\<lambda>x. Option.bind x
                         (\<lambda>s. if demo_format s = demo_format first then Some s else None)) xs))"

definition demo_strftime :: "pystr \<Rightarrow> string" where
  "demo_strftime t = map char_of (take 8 (drop 11 t))"

fun demo_min :: "(int, pystr) column \<Rightarrow> error + int" where
  "demo_min (NumCol xs) =
     (case List.map_filter id xs of [] \<Rightarrow> Inl ValueError | v # vs \<Rightarrow> Inr (fold min vs v))"
| "demo_min col = Inl TypeError"

fun demo_max :: "(int, pystr) column \<Rightarrow> error + int" where
  "demo_max (NumCol xs) =
     (case List.map_filter id xs of [] \<Rightarrow> Inl ValueError | v # vs \<Rightarrow> Inr (fold max vs v))"
| "demo_max col = Inl TypeError"

definition demo_px ::
  "(int, pystr) table \<Rightarrow> string \<Rightarrow> string list \<Rightarrow> string \<Rightarrow> error + (int, pystr) figure" where
  "demo_px df x ys title =
     and_then (getitem df x) (\<lambda>xs.
     and_then (scatter_traces df ys (nrows df)) (\<lambda>traces.
       Inr \<lparr>fig_data = traces, fig_title = title, fig_steps = [], fig_frames = []\<rparr>))"

definition flight :: "nat \<Rightarrow> (int, pystr) table" where
  "flight n =
     \<lparr>nrows = n,
      columns =
        [(''date'', ObjCol (replicate n (Some (text_of ''2024-05-01'')))),
         (''time'', ObjCol (replicate n (Some (text_of ''12:00:01:250'')))),
         (''lon'', NumCol (map (\<lambda>i. Some (int i)) [0..<n])),
         (''lat'', NumCol (map (\<lambda>i. Some (2 * int i)) [0..<n])),
         (''gps_alt'', NumCol (map (\<lambda>i. Some (100 * int i)) [0..<n])),
         (''alt'', NumCol (map (\<lambda>i. Some (100 * int i)) [0..<n])),
         (''acc_x'', NumCol (replicate n (Some 0))),
         (''acc_y'', NumCol (replicate n (Some 0))),
         (''acc_z'', NumCol (replicate n (Some 9))),
         (''eu_x'', NumCol (replicate n (Some 0))),
         (''eu_y'', NumCol (replicate n (Some 0))),
         (''eu_z'', NumCol (replicate n (Some 0))),
         (''valve_state'', NumCol (replicate n (Some 1)))]\<rparr>"

text \<open>The same flight with an unreadable time in its first row.\<close>

definition garbled_flight :: "nat \<Rightarrow> (int, pystr) table" where
  "garbled_flight n =
     setitem (flight n) ''time'' (ObjCol (Some (text_of ''bad'') # replicate (n - 1) (Some (text_of ''12:00:01:250''))))"

text \<open>
  The same flight with times in two formats: milliseconds in its first row, whole seconds
  in the others.
\<close>

definition mixed_flight :: "nat \<Rightarrow> (int, pystr) table" where
  "mixed_flight n =
     setitem (flight n) ''time''
       (ObjCol (Some (text_of ''12:00:01:250'') # replicate (n - 1) (Some (text_of ''12:00:02''))))"

definition demo_lib :: "((int, pystr) table, int, pystr) lib" where
  "demo_lib =
     \<lparr>lib_read_csv =
        (\<lambda>src. case src of
           Upload df \<Rightarrow> Inr df
         | Path p \<Rightarrow> (if p = ''database/ideal_rocket_launch.csv'' then Inr (flight 12)
                      else Inl ReadError)),
      lib_to_datetime = demo_to_datetime,
      lib_strftime = demo_strftime,
      lib_min = demo_min,
      lib_max = demo_max,
      lib_sub10 = (\<lambda>v. v - 10),
      lib_px_line = demo_px,
      lib_px_scatter = demo_px\<rparr>"

text \<open>A table after lines 62 to 65, with the stand-in for \<^verbatim>\<open>pd.to_datetime\<close>.\<close>

definition parsed :: "(int, pystr) table \<Rightarrow> (int, pystr) table" where
  "parsed df = projr (process_time demo_to_datetime df)"

text \<open>A table after the timestamps are parsed, with one measured column.\<close>

definition tracked :: "nat \<Rightarrow> (int, pystr) table" where
  "tracked n =
     \<lparr>nrows = n,
      columns =
        [(''datetime'', TimeCol (replicate n (Some (text_of ''2024-05-01 12:00:01.250'')))),
         (''alt'', NumCol (map (\<lambda>i. Some (100 * int i)) [0..<n]))]\<rparr>"

section \<open>Basic facts\<close>

lemma and_then_Inr_iff:
  "and_then r f = Inr b \<longleftrightarrow> (\<exists>a. r = Inr a \<and> f a = Inr b)"
  by (cases r) (simp_all add: and_then_def)

lemma and_then_Inr [simp]: "and_then (Inr a) f = f a"
  by (simp add: and_then_def)

lemma and_then_Inl [simp]: "and_then (Inl e) f = Inl e"
  by (simp add: and_then_def)

lemma getitem_Inr_iff: "getitem df c = Inr col \<longleftrightarrow> map_of (columns df) c = Some col"
  by (simp add: getitem_def split: option.splits)

lemma getitem_column_of: "getitem df c = Inr col \<Longrightarrow> column_of df c = col"
  by (simp add: getitem_Inr_iff column_of_def)

lemma wf_table_col_len:
  "wf_table df \<Longrightarrow> map_of (columns df) c = Some col \<Longrightarrow> col_len col = nrows df"
  by (auto simp: wf_table_def list_all_iff dest: map_of_SomeD)

lemma col_len_take [simp]: "col_len (col_take k col) = min k (col_len col)"
  by (cases col) (simp_all add: min.commute)

subsection \<open>The values of \<^verbatim>\<open>range\<close>\<close>

lemma mult_less_iff_ceil:
  fixes s :: nat
  assumes "0 < s"
  shows "j * s < m \<longleftrightarrow> j < (m + s - 1) div s"
proof -
  have "j < (m + s - 1) div s \<longleftrightarrow> Suc j \<le> (m + s - 1) div s" by auto
  also have "\<dots> \<longleftrightarrow> Suc j * s \<le> m + s - 1"
    using assms by (simp add: less_eq_div_iff_mult_less_eq)
  also have "\<dots> \<longleftrightarrow> j * s < m" using assms by auto
  finally show ?thesis by simp
qed

lemma py_range_from:
  assumes "0 < s"
  shows "py_range (a + j * s) b s = map (\<lambda>i. a + i * s) [j ..< (b - a + s - 1) div s]"
proof (induction "(b - a + s - 1) div s - j" arbitrary: j)
  case 0
  then have "\<not> j < (b - a + s - 1) div s" by simp
  then have "\<not> j * s < b - a" using mult_less_iff_ceil [OF assms] by simp
  then have "\<not> a + j * s < b" by auto
  then show ?case using 0 by (simp add: py_range.simps [of "a + j * s"])
next
  case (Suc d)
  then have lt: "j < (b - a + s - 1) div s" by simp
  then have "j * s < b - a" using mult_less_iff_ceil [OF assms] by simp
  then have "a + j * s < b" by auto
  moreover have "py_range (a + Suc j * s) b s = map (\<lambda>i. a + i * s) [Suc j ..< (b - a + s - 1) div s]"
    using Suc by (intro Suc.hyps(1)) simp
  ultimately show ?case using assms lt
    by (simp add: py_range.simps [of "a + j * s"] upt_conv_Cons ac_simps)
qed

lemma py_range_eq:
  "0 < s \<Longrightarrow> py_range a b s = map (\<lambda>i. a + i * s) [0 ..< (b - a + s - 1) div s]"
  using py_range_from [of s a 0 b] by simp

lemma py_range_multiples:
  assumes "0 < s"
  shows "py_range s (Suc n) s = map (\<lambda>i. i * s) [1 ..< Suc (n div s)]"
proof -
  have "(Suc n - 0 + s - 1) div s = Suc (n div s)" using assms by (simp add: div_add_self2)
  then show ?thesis using py_range_from [OF assms, of 0 1 "Suc n"] by simp
qed

section \<open>The frame builder\<close>

lemma scatter_traces_Inr:
  "scatter_traces df y_cols k = Inr ts \<Longrightarrow> ts = prefix_traces df y_cols k"
proof (induction y_cols arbitrary: ts)
  case Nil
  then show ?case by (simp add: prefix_traces_def)
next
  case (Cons c cs)
  from Cons.prems obtain x y rest where
    x: "getitem df ''datetime'' = Inr x" and y: "getitem df c = Inr y"
    and r: "scatter_traces df cs k = Inr rest"
    and ts: "ts = Scatter (col_take k x) (col_take k y) ''lines'' c # rest"
    by (auto simp: and_then_Inr_iff)
  from Cons.IH [OF r] x y ts show ?case
    by (simp add: prefix_traces_def getitem_column_of)
qed

lemma scatter_traces_ok:
  assumes "map_of (columns df) ''datetime'' = Some x"
    and "\<forall>c\<in>set y_cols. map_of (columns df) c \<noteq> None"
  shows "scatter_traces df y_cols k = Inr (prefix_traces df y_cols k)"
  using assms(2)
proof (induction y_cols)
  case Nil
  then show ?case by (simp add: prefix_traces_def)
next
  case (Cons c cs)
  then obtain y where y: "map_of (columns df) c = Some y" by auto
  have "getitem df ''datetime'' = Inr x" "getitem df c = Inr y"
    using assms(1) y by (simp_all add: getitem_Inr_iff)
  moreover have "scatter_traces df cs k = Inr (prefix_traces df cs k)" using Cons by simp
  ultimately show ?case using assms(1) y
    by (simp add: prefix_traces_def column_of_def)
qed

lemma frame_loop_Inr:
  "frame_loop sf df y_cols ks frames sl = Inr (frames', sl') \<Longrightarrow>
   frames' = frames @ map (prefix_frame df y_cols) ks \<and>
   map step_args sl' = map step_args sl @ map str_nat ks"
proof (induction ks arbitrary: frames sl)
  case Nil
  then show ?case by simp
next
  case (Cons k ks)
  from Cons.prems obtain fd lbl where
    fd: "scatter_traces df y_cols k = Inr fd" and
    rest: "frame_loop sf df y_cols ks
             (frames @ [\<lparr>frame_data = fd, frame_name = str_nat k\<rparr>])
             (sl @ [\<lparr>step_args = str_nat k, step_label = lbl\<rparr>]) = Inr (frames', sl')"
    by (auto simp: and_then_Inr_iff)
  from Cons.IH [OF rest] scatter_traces_Inr [OF fd] show ?case
    by (simp add: prefix_frame_def)
qed

lemma slider_label_ok:
  assumes "map_of (columns df) ''datetime'' = Some (TimeCol ts)"
    and "k - 1 < length ts" and "ts ! (k - 1) = Some t"
  shows "slider_label sf df k = Inr (sf t)"
  using assms by (simp add: slider_label_def getitem_def series_iloc_def)

lemma frame_loop_ok:
  assumes dt: "map_of (columns df) ''datetime'' = Some (TimeCol ts)"
    and cols: "\<forall>c\<in>set y_cols. map_of (columns df) c \<noteq> None"
    and ks: "\<forall>k\<in>set ks. k - 1 < length ts \<and> ts ! (k - 1) \<noteq> None"
  shows "\<exists>sl'. frame_loop sf df y_cols ks frames sl =
           Inr (frames @ map (prefix_frame df y_cols) ks, sl')"
  using ks
proof (induction ks arbitrary: frames sl)
  case Nil
  then show ?case by simp
next
  case (Cons k ks)
  then obtain t where t: "k - 1 < length ts" "ts ! (k - 1) = Some t" by auto
  have l: "slider_label sf df k = Inr (sf t)" using slider_label_ok [OF dt t] .
  have s: "scatter_traces df y_cols k = Inr (prefix_traces df y_cols k)"
    using scatter_traces_ok [OF dt cols] .
  from Cons.prems have "\<forall>k\<in>set ks. k - 1 < length ts \<and> ts ! (k - 1) \<noteq> None" by simp
  from Cons.IH [OF this, of "frames @ [prefix_frame df y_cols k]"
      "sl @ [\<lparr>step_args = str_nat k, step_label = sf t\<rparr>]"]
  show ?case
    by (simp add: l s prefix_frame_def)
qed

lemma create_Inr:
  assumes "create_time_slider_frames sf df y_cols y_label = Inr fig"
  shows "fig_frames fig = map (prefix_frame df y_cols)
            (py_range (max 1 (nrows df div 30)) (Suc (nrows df)) (max 1 (nrows df div 30)))"
    and "fig_data fig = prefix_traces df y_cols (max 1 (nrows df div 30))"
    and "map step_args (fig_steps fig) = map str_nat
            (py_range (max 1 (nrows df div 30)) (Suc (nrows df)) (max 1 (nrows df div 30)))"
proof -
  let ?s = "max 1 (nrows df div 30)"
  from assms obtain frames sl init where
    l: "frame_loop sf df y_cols (py_range ?s (Suc (nrows df)) ?s) [] [] = Inr (frames, sl)"
    and i: "scatter_traces df y_cols ?s = Inr init"
    and f: "fig = \<lparr>fig_data = init, fig_title = y_label @ '' over Time with Time Slider'',
                   fig_steps = sl, fig_frames = frames\<rparr>"
    by (auto simp: create_time_slider_frames_def Let_def and_then_Inr_iff)
  from frame_loop_Inr [OF l] f
  show "fig_frames fig = map (prefix_frame df y_cols) (py_range ?s (Suc (nrows df)) ?s)"
    and "map step_args (fig_steps fig) = map str_nat (py_range ?s (Suc (nrows df)) ?s)"
    by simp_all
  from scatter_traces_Inr [OF i] f show "fig_data fig = prefix_traces df y_cols ?s" by simp
qed

lemma create_ok:
  assumes dt: "map_of (columns df) ''datetime'' = Some (TimeCol ts)"
    and cols: "\<forall>c\<in>set y_cols. map_of (columns df) c \<noteq> None"
    and ks: "\<forall>k\<in>set (py_range (max 1 (nrows df div 30)) (Suc (nrows df)) (max 1 (nrows df div 30))).
               k - 1 < length ts \<and> ts ! (k - 1) \<noteq> None"
  shows "\<exists>fig. create_time_slider_frames sf df y_cols y_label = Inr fig"
proof -
  let ?s = "max 1 (nrows df div 30)"
  from frame_loop_ok [OF dt cols ks, of sf "[]" "[]"] obtain sl where
    "frame_loop sf df y_cols (py_range ?s (Suc (nrows df)) ?s) [] [] =
       Inr (map (prefix_frame df y_cols) (py_range ?s (Suc (nrows df)) ?s), sl)"
    by auto
  then show ?thesis
    by (simp add: create_time_slider_frames_def Let_def scatter_traces_ok [OF dt cols])
qed

lemma py_range_multiples_bounds:
  assumes "0 < s" and "k \<in> set (py_range s (Suc n) s)"
  shows "0 < k \<and> k \<le> n"
proof -
  from assms obtain i where i: "i \<in> set [1..<Suc (n div s)]" and k: "k = i * s"
    unfolding py_range_multiples [OF assms(1)] by auto
  then have "1 \<le> i" "i \<le> n div s" by auto
  then show ?thesis using assms(1) by (simp add: k less_eq_div_iff_mult_less_eq)
qed

lemma tracked_builds:
  "\<exists>fig. create_time_slider_frames sf (tracked n) [''alt''] y_label = Inr fig"
proof (rule create_ok)
  show "map_of (columns (tracked n)) ''datetime'' =
          Some (TimeCol (replicate n (Some (text_of ''2024-05-01 12:00:01.250''))))"
    by (simp add: tracked_def)
  show "\<forall>c\<in>set [''alt'']. map_of (columns (tracked n)) c \<noteq> None"
    by (simp add: tracked_def)
  show "\<forall>k\<in>set (py_range (max 1 (nrows (tracked n) div 30)) (Suc (nrows (tracked n)))
                   (max 1 (nrows (tracked n) div 30))).
          k - 1 < length (replicate n (Some (text_of ''2024-05-01 12:00:01.250''))) \<and>
          replicate n (Some (text_of ''2024-05-01 12:00:01.250'')) ! (k - 1) \<noteq> None"
  proof
    fix k
    assume "k \<in> set (py_range (max 1 (nrows (tracked n) div 30)) (Suc (nrows (tracked n)))
                   (max 1 (nrows (tracked n) div 30)))"
    then have "0 < k \<and> k \<le> nrows (tracked n)"
      by (intro py_range_multiples_bounds [of "max 1 (nrows (tracked n) div 30)"]) simp_all
    then have "k - 1 < n" by (auto simp: tracked_def)
    then show "k - 1 < length (replicate n (Some (text_of ''2024-05-01 12:00:01.250''))) \<and>
          replicate n (Some (text_of ''2024-05-01 12:00:01.250'')) ! (k - 1) \<noteq> None"
      by simp
  qed
qed

lemma col_prefix_take: "k \<le> k' \<Longrightarrow> col_prefix (col_take k c) (col_take k' c)"
proof -
  assume le: "k \<le> k'"
  have p: "prefix (take k xs) (take k' xs)" for xs :: "'x list"
  proof -
    have "take k xs = take k (take k' xs)" using le by (simp add: min_def)
    then show ?thesis by (metis take_is_prefix)
  qed
  show ?thesis by (cases c) (simp_all add: p)
qed

lemma prefix_traces_grow:
  "k \<le> k' \<Longrightarrow> list_all2 trace_prefix (prefix_traces df y_cols k) (prefix_traces df y_cols k')"
  by (induction y_cols) (simp_all add: prefix_traces_def col_prefix_take)

lemma col_nth_take: "j < k \<Longrightarrow> col_nth (col_take k c) j = col_nth c j"
  by (cases c) simp_all

lemma scatter_traces_cols:
  "scatter_traces df y_cols k = Inr ts \<Longrightarrow> c \<in> set y_cols \<Longrightarrow>
   map_of (columns df) c \<noteq> None \<and> map_of (columns df) ''datetime'' \<noteq> None"
proof (induction y_cols arbitrary: ts)
  case Nil
  then show ?case by simp
next
  case (Cons a cs)
  from Cons.prems(1) obtain x y rest where
    x: "getitem df ''datetime'' = Inr x" and y: "getitem df a = Inr y"
    and r: "scatter_traces df cs k = Inr rest"
    by (auto simp: and_then_Inr_iff)
  show ?case
  proof (cases "c = a")
    case True
    then show ?thesis using x y by (simp add: getitem_Inr_iff)
  next
    case False
    then have "c \<in> set cs" using Cons.prems(2) by simp
    from Cons.IH [OF r this] show ?thesis .
  qed
qed

text \<open>
  Claim C5. In every figure the builder returns, the frames grow: each trace of a frame
  is an initial part of the same trace of the next frame, the frame at position \<open>i\<close> is
  the one for the bound \<open>k = (i + 1) * step\<close>, which is at most the row count, and each
  of its series has \<open>k\<close> rows, row \<open>j\<close> of the series being row \<open>j\<close> of the table's column
  for every \<open>j < k\<close>.
\<close>

theorem frames_grow_by_prefix:
  assumes fig: "create_time_slider_frames sf df y_cols y_label = Inr fig"
    and wf: "wf_table df"
    and step: "step = max 1 (nrows df div 30)"
  shows "(\<forall>i. Suc i < length (fig_frames fig) \<longrightarrow>
            list_all2 trace_prefix (frame_data (fig_frames fig ! i))
              (frame_data (fig_frames fig ! Suc i))) \<and>
         (\<forall>i < length (fig_frames fig).
            fig_frames fig ! i = prefix_frame df y_cols (Suc i * step) \<and>
            Suc i * step \<le> nrows df \<and>
            (\<forall>c \<in> set (''datetime'' # y_cols).
               col_len (col_take (Suc i * step) (column_of df c)) = Suc i * step \<and>
               (\<forall>j < Suc i * step.
                  col_nth (col_take (Suc i * step) (column_of df c)) j = col_nth (column_of df c) j)))"
proof -
  have s0: "0 < step" using step by simp
  have fr: "fig_frames fig = map (\<lambda>i. prefix_frame df y_cols (i * step)) [1..<Suc (nrows df div step)]"
    using create_Inr(1) [OF fig] py_range_multiples [OF s0, of "nrows df"]
    by (simp add: step comp_def)
  have len: "length (fig_frames fig) = nrows df div step" by (simp add: fr)
  have nth: "fig_frames fig ! i = prefix_frame df y_cols (Suc i * step)"
    if "i < length (fig_frames fig)" for i
    using that unfolding fr by (simp add: nth_map_upt del: upt_Suc)
  have bound: "Suc i * step \<le> nrows df" if "i < length (fig_frames fig)" for i
  proof -
    from that have "Suc i \<le> nrows df div step" by (simp add: len)
    then show ?thesis using s0 by (simp add: less_eq_div_iff_mult_less_eq)
  qed
  have init: "scatter_traces df y_cols step = Inr (fig_data fig)"
    using fig by (auto simp: create_time_slider_frames_def Let_def and_then_Inr_iff step)
  have present: "map_of (columns df) c \<noteq> None"
    if "c \<in> set (''datetime'' # y_cols)" "0 < length (fig_frames fig)" for c
  proof (cases "y_cols = []")
    case False
    then obtain a where a: "a \<in> set y_cols" by (cases y_cols) auto
    from that(1) scatter_traces_cols [OF init a] scatter_traces_cols [OF init, of c]
    show ?thesis by auto
  next
    case True
    with that(1) have c: "c = ''datetime''" by simp
    from that(2) have "py_range step (Suc (nrows df)) step \<noteq> []"
      using create_Inr(1) [OF fig] by (auto simp: step)
    then obtain k ks where ks: "py_range step (Suc (nrows df)) step = k # ks"
      by (cases "py_range step (Suc (nrows df)) step") auto
    from fig obtain frames sl where
      "frame_loop sf df y_cols (py_range step (Suc (nrows df)) step) [] [] = Inr (frames, sl)"
      by (auto simp: create_time_slider_frames_def Let_def and_then_Inr_iff step)
    then have "frame_loop sf df y_cols (k # ks) [] [] = Inr (frames, sl)"
      by (simp only: ks)
    then obtain lbl where "slider_label sf df k = Inr lbl"
      by (auto simp: and_then_Inr_iff)
    then show ?thesis
      by (auto simp: slider_label_def and_then_Inr_iff getitem_Inr_iff c)
  qed
  have rows: "col_len (col_take (Suc i * step) (column_of df c)) = Suc i * step"
    if "i < length (fig_frames fig)" "c \<in> set (''datetime'' # y_cols)" for i c
  proof -
    from present [OF that(2)] that(1) obtain col where c: "map_of (columns df) c = Some col"
      by fastforce
    then have "col_len (column_of df c) = nrows df"
      using wf_table_col_len [OF wf c] by (simp add: column_of_def)
    then show ?thesis using bound [OF that(1)] by simp
  qed
  have grow: "list_all2 trace_prefix (frame_data (fig_frames fig ! i))
              (frame_data (fig_frames fig ! Suc i))" if "Suc i < length (fig_frames fig)" for i
  proof -
    have "Suc i * step \<le> Suc (Suc i) * step" by simp
    from prefix_traces_grow [OF this, of df y_cols] nth [of i] nth [of "Suc i"] that
    show ?thesis by (simp add: prefix_frame_def)
  qed
  show ?thesis
    using grow nth bound rows col_nth_take by blast
qed

text \<open>
  Claim C10. In every figure the builder returns, the initial traces are those over the
  first \<open>step_size\<close> rows of each requested column; the figure has a frame unless the
  table has no row, and the traces of its first frame are the initial traces.
\<close>

theorem initial_data_is_first_frame:
  assumes fig: "create_time_slider_frames sf df y_cols y_label = Inr fig"
  shows "fig_data fig = prefix_traces df y_cols (max 1 (nrows df div 30)) \<and>
         (fig_frames fig = [] \<longleftrightarrow> nrows df = 0) \<and>
         (fig_frames fig \<noteq> [] \<longrightarrow> frame_data (hd (fig_frames fig)) = fig_data fig)"
proof -
  let ?s = "max 1 (nrows df div 30)"
  have s0: "0 < ?s" by simp
  have fr: "fig_frames fig = map (\<lambda>i. prefix_frame df y_cols (i * ?s)) [1..<Suc (nrows df div ?s)]"
    using create_Inr(1) [OF fig] py_range_multiples [OF s0, of "nrows df"]
    by (simp add: comp_def)
  have e: "fig_frames fig = [] \<longleftrightarrow> nrows df = 0"
  proof -
    have "nrows df div ?s = 0 \<longleftrightarrow> nrows df = 0"
      by (auto simp: div_eq_0_iff max_def)
    then show ?thesis unfolding fr by auto
  qed
  have h: "frame_data (hd (fig_frames fig)) = fig_data fig" if "fig_frames fig \<noteq> []"
  proof -
    from that have "1 \<le> nrows df div ?s" unfolding fr by (auto split: if_splits)
    then have "hd (fig_frames fig) = prefix_frame df y_cols ?s"
      unfolding fr by (simp add: hd_map del: upt_Suc)
    then show ?thesis using create_Inr(2) [OF fig] by (simp add: prefix_frame_def)
  qed
  show ?thesis using create_Inr(2) [OF fig] e h by blast
qed


theorem frames_grow_by_prefix_witness:
  "\<exists>fig. create_time_slider_frames demo_strftime (tracked 3) [''alt''] ''Altitude'' = Inr fig \<and>
     length (fig_frames fig) = 3 \<and>
     list_all2 trace_prefix (frame_data (fig_frames fig ! 0)) (frame_data (fig_frames fig ! 1)) \<and>
     fig_frames fig ! 1 = prefix_frame (tracked 3) [''alt''] 2 \<and>
     col_len (col_take 2 (column_of (tracked 3) ''alt'')) = 2 \<and>
     col_nth (col_take 2 (column_of (tracked 3) ''alt'')) 1 = col_nth (column_of (tracked 3) ''alt'') 1"
proof -
  from tracked_builds obtain fig where
    fig: "create_time_slider_frames demo_strftime (tracked 3) [''alt''] ''Altitude'' = Inr fig"
    by blast
  have wf: "wf_table (tracked 3)" by (simp add: wf_table_def tracked_def)
  have step: "(1::nat) = max 1 (nrows (tracked 3) div 30)" by (simp add: tracked_def)
  have len: "length (fig_frames fig) = 3"
    using create_Inr(1) [OF fig] by (simp add: tracked_def py_range.simps)
  from frames_grow_by_prefix [OF fig wf step] len
  have "list_all2 trace_prefix (frame_data (fig_frames fig ! 0)) (frame_data (fig_frames fig ! Suc 0))"
    and "fig_frames fig ! 1 = prefix_frame (tracked 3) [''alt''] (Suc 1 * 1)"
    and "col_len (col_take (Suc 1 * 1) (column_of (tracked 3) ''alt'')) = Suc 1 * 1"
    and "col_nth (col_take (Suc 1 * 1) (column_of (tracked 3) ''alt'')) 1 =
           col_nth (column_of (tracked 3) ''alt'') 1"
    by auto
  with fig len show ?thesis by (auto simp: numeral_2_eq_2)
qed

theorem initial_data_is_first_frame_witness:
  "\<exists>fig. create_time_slider_frames demo_strftime (tracked 65) [''alt''] ''Altitude'' = Inr fig \<and>
     fig_data fig = prefix_traces (tracked 65) [''alt''] 2 \<and>
     fig_frames fig \<noteq> [] \<and>
     frame_data (hd (fig_frames fig)) = fig_data fig"
proof -
  from tracked_builds obtain fig where
    fig: "create_time_slider_frames demo_strftime (tracked 65) [''alt''] ''Altitude'' = Inr fig"
    by blast
  have n: "nrows (tracked 65) = 65" by (simp add: tracked_def)
  have s: "max 1 (nrows (tracked 65) div 30) = 2" by (simp add: n)
  from initial_data_is_first_frame [OF fig] fig show ?thesis unfolding s by (simp add: n)
qed

text \<open>
  Claim C1 fails on the code. An uploaded flight of ten rows whose first row has an
  unreadable time comes out of lines 62 to 65 well-formed, with ten rows and a null
  timestamp in its first row, and the frame builder, called on it as line 270 calls it,
  raises \<^verbatim>\<open>ValueError\<close> at the label of the first slider step (line 227): no figure is
  returned, where the claim has ten frames. On the same flight with readable times the
  builder returns a figure with ten frames.
\<close>

theorem frame_builder_raises_on_unparsed_row:
  "\<not> isl (process_time demo_to_datetime (garbled_flight 10)) \<and>
   wf_table (parsed (garbled_flight 10)) \<and>
   nrows (parsed (garbled_flight 10)) = 10 \<and>
   map_of (columns (parsed (garbled_flight 10))) ''datetime'' =
     Some (TimeCol (None # replicate 9 (Some (text_of ''2024-05-01 12:00:01.250'')))) \<and>
   create_time_slider_frames demo_strftime (parsed (garbled_flight 10)) [''alt''] ''Altitude'' =
     Inl ValueError \<and>
   \<not> isl (create_time_slider_frames demo_strftime (parsed (flight 10)) [''alt''] ''Altitude'') \<and>
   length (fig_frames (projr
     (create_time_slider_frames demo_strftime (parsed (flight 10)) [''alt''] ''Altitude''))) = 10"
  by code_simp

section \<open>The trajectory chart\<close>

lemma getattr_Some [simp]: "map_of (columns df) c = Some col \<Longrightarrow> getattr df c = Inr col"
  by (simp add: getattr_def)

lemma path_trace_ok:
  assumes "map_of (columns df) ''lon'' = Some lon" "map_of (columns df) ''lat'' = Some lat"
    "map_of (columns df) ''gps_alt'' = Some alt"
  shows "path_trace df k = Inr (Scatter3d (col_take k lon) (col_take k lat) (col_take k alt)
            ''lines'' ''Rocket Path'')"
  using assms by (simp add: path_trace_def)

lemma rocket_trace_ok:
  assumes "wf_table df" "i < nrows df"
    "map_of (columns df) ''lon'' = Some lon" "map_of (columns df) ''lat'' = Some lat"
    "map_of (columns df) ''gps_alt'' = Some alt"
  shows "rocket_trace df i = Inr (Scatter3d_point (col_nth lon i) (col_nth lat i) (col_nth alt i)
            ''text+markers'' ''Rocket'')"
  using assms wf_table_col_len [OF assms(1)]
  by (simp add: rocket_trace_def series_getitem_def)

lemma rocket_trace_fails:
  assumes "wf_table df" "nrows df \<le> i"
    "map_of (columns df) ''lon'' = Some lon"
  shows "rocket_trace df i = Inl KeyError"
  using assms wf_table_col_len [OF assms(1) assms(3)]
  by (simp add: rocket_trace_def series_getitem_def)

lemma trajectory_frames_ok:
  assumes wf: "wf_table df"
    and cols: "map_of (columns df) ''lon'' = Some lon" "map_of (columns df) ''lat'' = Some lat"
      "map_of (columns df) ''gps_alt'' = Some alt"
    and ks: "\<forall>k\<in>set ks. 0 < k \<and> k \<le> nrows df"
  shows "trajectory_frames ground df ks = Inr (map (trajectory_frame ground df) ks)"
  using ks
proof (induction ks)
  case Nil
  then show ?case by simp
next
  case (Cons k ks)
  then have "k - 1 < nrows df" by auto
  from rocket_trace_ok [OF wf this cols] path_trace_ok [OF cols, of k] Cons cols
  show ?case by (simp add: trajectory_frame_def column_of_def)
qed

text \<open>
  Claim C9. On a well-formed table that has the columns \<^verbatim>\<open>lon\<close>, \<^verbatim>\<open>lat\<close> and \<^verbatim>\<open>gps_alt\<close>:
  with fewer than ten rows the frames are built (there is none) and the row access
  \<^verbatim>\<open>df.lon[9]\<close> of the initial figure raises \<^verbatim>\<open>KeyError\<close>, so no figure is built; with
  ten rows or more the figure is built, its frames are those for \<open>k = 10, 15, 20, ...\<close>
  below the row count and no other, and with exactly ten rows there is no frame.
\<close>

theorem trajectory_needs_ten_rows:
  assumes wf: "wf_table df"
    and cols: "map_of (columns df) ''lon'' = Some lon" "map_of (columns df) ''lat'' = Some lat"
      "map_of (columns df) ''gps_alt'' = Some alt"
  shows "(nrows df < 10 \<longrightarrow>
            trajectory_frames ground df (py_range 10 (nrows df) 5) = Inr [] \<and>
            rocket_trace df 9 = Inl KeyError \<and>
            trajectory_figure ground df = Inl KeyError) \<and>
         (10 \<le> nrows df \<longrightarrow>
            (\<exists>fig. trajectory_figure ground df = Inr fig \<and>
               fig_frames fig = map (\<lambda>i. trajectory_frame ground df (10 + i * 5))
                                    [0..<(nrows df - 10 + 4) div 5] \<and>
               (\<forall>f\<in>set (fig_frames fig). \<exists>k. f = trajectory_frame ground df k \<and>
                    10 \<le> k \<and> k < nrows df \<and> 5 dvd (k - 10)) \<and>
               (nrows df = 10 \<longrightarrow> fig_frames fig = [])))"
proof (intro conjI impI)
  assume n: "nrows df < 10"
  then have r: "py_range 10 (nrows df) 5 = []" by (simp add: py_range.simps)
  show "trajectory_frames ground df (py_range 10 (nrows df) 5) = Inr []" by (simp add: r)
  have "nrows df \<le> 9" using n by simp
  from rocket_trace_fails [OF wf this cols(1)] show k: "rocket_trace df 9 = Inl KeyError" .
  show "trajectory_figure ground df = Inl KeyError"
    by (simp add: trajectory_figure_def r k path_trace_ok [OF cols])
next
  assume n: "10 \<le> nrows df"
  let ?ks = "py_range 10 (nrows df) 5"
  define m where "m = (nrows df - 10 + 4) div 5"
  have r: "?ks = map (\<lambda>i. 10 + i * 5) [0..<m]"
    using py_range_eq [of 5 10 "nrows df"] by (simp add: add.commute m_def)
  have mem: "10 \<le> k \<and> k < nrows df \<and> 5 dvd (k - 10)" if "k \<in> set ?ks" for k
  proof -
    from that obtain i where i: "i < m" and k: "k = 10 + i * 5"
      unfolding r by auto
    from i have "i * 5 < nrows df - 10"
      using mult_less_iff_ceil [of 5 i "nrows df - 10"] by (simp add: m_def)
    then show ?thesis by (simp add: k)
  qed
  then have "\<forall>k\<in>set ?ks. 0 < k \<and> k \<le> nrows df" by force
  from trajectory_frames_ok [OF wf cols this]
  have fr: "trajectory_frames ground df ?ks = Inr (map (trajectory_frame ground df) ?ks)" .
  have "9 < nrows df" using n by simp
  from rocket_trace_ok [OF wf this cols] path_trace_ok [OF cols, of 10] fr
  obtain fig where fig: "trajectory_figure ground df = Inr fig"
    and frames: "fig_frames fig = map (trajectory_frame ground df) ?ks"
    by (simp add: trajectory_figure_def)
  show "\<exists>fig. trajectory_figure ground df = Inr fig \<and>
               fig_frames fig = map (\<lambda>i. trajectory_frame ground df (10 + i * 5))
                                    [0..<(nrows df - 10 + 4) div 5] \<and>
               (\<forall>f\<in>set (fig_frames fig). \<exists>k. f = trajectory_frame ground df k \<and>
                    10 \<le> k \<and> k < nrows df \<and> 5 dvd (k - 10)) \<and>
               (nrows df = 10 \<longrightarrow> fig_frames fig = [])"
  proof (intro exI conjI impI)
    show "trajectory_figure ground df = Inr fig" by (rule fig)
    show "fig_frames fig = map (\<lambda>i. trajectory_frame ground df (10 + i * 5))
                                    [0..<(nrows df - 10 + 4) div 5]"
      unfolding frames r by (simp add: comp_def m_def)
    show "\<forall>f\<in>set (fig_frames fig). \<exists>k. f = trajectory_frame ground df k \<and>
                    10 \<le> k \<and> k < nrows df \<and> 5 dvd (k - 10)"
      unfolding frames using mem by auto
    show "fig_frames fig = []" if "nrows df = 10"
      unfolding frames using that by (simp add: py_range.simps)
  qed
qed

theorem trajectory_needs_ten_rows_witness:
  "trajectory_figure (Surface [] [] []) (flight 5) = Inl KeyError \<and>
   rocket_trace (flight 5) 9 = Inl KeyError \<and>
   (\<exists>fig. trajectory_figure (Surface [] [] []) (flight 10) = Inr fig \<and> fig_frames fig = [])"
proof -
  have wf: "wf_table (flight n)" for n by (simp add: wf_table_def flight_def)
  have cols: "map_of (columns (flight n)) ''lon'' = Some (NumCol (map (\<lambda>i. Some (int i)) [0..<n]))"
    "map_of (columns (flight n)) ''lat'' = Some (NumCol (map (\<lambda>i. Some (2 * int i)) [0..<n]))"
    "map_of (columns (flight n)) ''gps_alt'' = Some (NumCol (map (\<lambda>i. Some (100 * int i)) [0..<n]))"
    for n by (simp_all add: flight_def)
  have n: "nrows (flight n) = n" for n by (simp add: flight_def)
  from trajectory_needs_ten_rows [OF wf cols, of 5 "Surface [] [] []"]
    trajectory_needs_ten_rows [OF wf cols, of 10 "Surface [] [] []"]
  show ?thesis by (auto simp: n)
qed

section \<open>The derived timestamps\<close>

lemma text_of_literals: "text_of '' '' = [32]" "text_of '':'' = [58]" "text_of ''.'' = [46]"
  by (simp_all add: text_of_def)

lemma lookahead_iff:
  "lookahead r \<longleftrightarrow>
     (\<exists>a b c. is_digit a \<and> is_digit b \<and> is_digit c \<and> (r = [a, b, c] \<or> r = [a, b, c, 10]))"
  by (cases r rule: lookahead.cases) auto

lemma colon_not_digit: "\<not> is_digit 58"
  by (simp add: is_digit_def digit_zeros_def)

lemma sub_colon_digits:
  "is_digit a \<Longrightarrow> is_digit b \<Longrightarrow> is_digit c \<Longrightarrow> sub_colon [a, b, c] = [a, b, c]"
  using colon_not_digit by auto

lemma sub_colon_final:
  assumes "is_digit a" "is_digit b" "is_digit c"
  shows "sub_colon (p @ 58 # [a, b, c]) = p @ 46 # [a, b, c]"
proof (induction p)
  case Nil
  show ?case using assms sub_colon_digits [OF assms] by simp
next
  case (Cons x p)
  have "\<not> lookahead (p @ 58 # [a, b, c])"
    using colon_not_digit by (cases p) (auto simp: lookahead_iff)
  then show ?case using Cons by simp
qed

lemma sub_colon_final_newline:
  assumes "is_digit a" "is_digit b" "is_digit c"
  shows "sub_colon (p @ 58 # [a, b, c, 10]) = p @ 46 # [a, b, c, 10]"
proof (induction p)
  case Nil
  show ?case using assms colon_not_digit by auto
next
  case (Cons x p)
  have "\<not> lookahead (p @ 58 # [a, b, c, 10])"
    by (cases p) (auto simp: lookahead_iff)
  then show ?case using Cons by simp
qed

lemma sub_colon_unchanged:
  assumes "\<not> (\<exists>p a b c. is_digit a \<and> is_digit b \<and> is_digit c \<and>
             (t = p @ 58 # [a, b, c] \<or> t = p @ 58 # [a, b, c, 10]))"
  shows "sub_colon t = t"
  using assms
proof (induction t)
  case Nil
  then show ?case by simp
next
  case (Cons x r)
  have 1: "\<not> (x = 58 \<and> lookahead r)"
  proof
    assume "x = 58 \<and> lookahead r"
    then obtain a b c where "is_digit a" "is_digit b" "is_digit c"
      "x # r = [] @ 58 # [a, b, c] \<or> x # r = [] @ 58 # [a, b, c, 10]"
      by (auto simp: lookahead_iff)
    with Cons.prems show False by blast
  qed
  have 2: "\<not> (\<exists>p a b c. is_digit a \<and> is_digit b \<and> is_digit c \<and>
             (r = p @ 58 # [a, b, c] \<or> r = p @ 58 # [a, b, c, 10]))"
  proof
    assume "\<exists>p a b c. is_digit a \<and> is_digit b \<and> is_digit c \<and>
             (r = p @ 58 # [a, b, c] \<or> r = p @ 58 # [a, b, c, 10])"
    then obtain p a b c where d: "is_digit a" "is_digit b" "is_digit c"
      and r: "r = p @ 58 # [a, b, c] \<or> r = p @ 58 # [a, b, c, 10]"
      by blast
    from r have "x # r = (x # p) @ 58 # [a, b, c] \<or>
                 x # r = (x # p) @ 58 # [a, b, c, 10]" by auto
    with Cons.prems d show False by blast
  qed
  from Cons.IH [OF 2] 1 show ?case by auto
qed

lemma map_of_setitem: "map_of (columns (setitem df c col)) = (map_of (columns df))(c \<mapsto> col)"
  by (simp add: setitem_def update_conv')

lemma nrows_setitem [simp]: "nrows (setitem df c col) = nrows df"
  by (simp add: setitem_def)

lemma fix_time_ok:
  assumes "map_of (columns df) ''time'' = Some (ObjCol ts)"
  shows "fix_time df = Inr (setitem df ''time'' (ObjCol (map (map_option sub_colon) ts)))"
  using assms by (simp add: fix_time_def getitem_def)

lemma combined_rows:
  "map2 concat_opt (map (map_option (\<lambda>x. x @ text_of '' '')) ds) (map (map_option sub_colon) ts) =
   map2 combined_text ds ts"
proof (induction ds arbitrary: ts)
  case Nil
  then show ?case by simp
next
  case (Cons d ds)
  show ?case
  proof (cases ts)
    case Nil
    then show ?thesis by simp
  next
    case (Cons t ts')
    have "concat_opt (map_option (\<lambda>x. x @ text_of '' '') d) (map_option sub_colon t) =
          combined_text d t"
      by (cases d; cases t) (simp_all add: combined_text_def)
    with Cons Cons.IH [of ts'] show ?thesis by simp
  qed
qed

lemma merge_datetime_ok:
  assumes "map_of (columns df) ''date'' = Some (ObjCol ds)"
    and "map_of (columns df) ''time'' = Some (ObjCol ts)"
  shows "merge_datetime to_datetime df =
           Inr (setitem df ''datetime''
                  (TimeCol (to_datetime
                     (map2 concat_opt (map (map_option (\<lambda>x. x @ text_of '' '')) ds) ts))))"
  using assms by (simp add: merge_datetime_def getitem_def)

lemma process_time_ok:
  assumes date: "map_of (columns df) ''date'' = Some (ObjCol ds)"
    and time: "map_of (columns df) ''time'' = Some (ObjCol ts)"
  shows "process_time to_datetime df =
           Inr (setitem (setitem df ''time'' (ObjCol (map (map_option sub_colon) ts)))
                  ''datetime'' (TimeCol (to_datetime (map2 combined_text ds ts))))"
proof -
  let ?df1 = "setitem df ''time'' (ObjCol (map (map_option sub_colon) ts))"
  have d: "map_of (columns ?df1) ''date'' = Some (ObjCol ds)"
    using date by (simp add: map_of_setitem)
  have t: "map_of (columns ?df1) ''time'' = Some (ObjCol (map (map_option sub_colon) ts))"
    by (simp add: map_of_setitem)
  show ?thesis
    by (simp only: process_time_def fix_time_ok [OF time] and_then_Inr
        merge_datetime_ok [OF d t] combined_rows)
qed


text \<open>
  Claim C3, as amended. On a well-formed table whose \<^verbatim>\<open>date\<close> and \<^verbatim>\<open>time\<close> columns are
  text, lines 62 to 65 raise nothing: they overwrite \<^verbatim>\<open>time\<close> with its normalised text
  and store as \<^verbatim>\<open>datetime\<close> what the one coercing \<^verbatim>\<open>pd.to_datetime\<close> call returns for the
  column of combined texts, which has one entry per row: the date, a space and the
  normalised time of that row, missing when the date or the time is. What that call
  makes of a row is the row's derived value; nothing says it is what the call makes of
  the row's text alone. The normalisation turns the colon before three final digits into
  a period; it does the same when one line feed follows the three digits, and changes no
  other text.
\<close>

theorem datetime_is_column_parse:
  assumes wf: "wf_table df"
    and date: "map_of (columns df) ''date'' = Some (ObjCol ds)"
    and time: "map_of (columns df) ''time'' = Some (ObjCol ts)"
  shows "process_time to_datetime df =
           Inr (setitem (setitem df ''time'' (ObjCol (map (map_option sub_colon) ts)))
                  ''datetime'' (TimeCol (to_datetime (map2 combined_text ds ts)))) \<and>
         length (map2 combined_text ds ts) = nrows df \<and>
         (\<forall>i < nrows df. map2 combined_text ds ts ! i = combined_text (ds ! i) (ts ! i)) \<and>
         (\<forall>d t. combined_text (Some d) (Some t) = Some (d @ text_of '' '' @ sub_colon t)) \<and>
         (\<forall>t. combined_text None t = None) \<and>
         (\<forall>d. combined_text d None = None) \<and>
         (\<forall>p a b c. is_digit a \<and> is_digit b \<and> is_digit c \<longrightarrow>
            sub_colon (p @ text_of '':'' @ [a, b, c]) = p @ text_of ''.'' @ [a, b, c] \<and>
            sub_colon (p @ text_of '':'' @ [a, b, c, 10]) = p @ text_of ''.'' @ [a, b, c, 10]) \<and>
         (\<forall>t. \<not> (\<exists>p a b c. is_digit a \<and> is_digit b \<and> is_digit c \<and>
                 (t = p @ text_of '':'' @ [a, b, c] \<or> t = p @ text_of '':'' @ [a, b, c, 10])) \<longrightarrow>
              sub_colon t = t)"
proof -
  have l: "length ds = nrows df" "length ts = nrows df"
    using wf_table_col_len [OF wf date] wf_table_col_len [OF wf time] by simp_all
  have "length (map2 combined_text ds ts) = nrows df" using l by simp
  moreover have "\<forall>i < nrows df. map2 combined_text ds ts ! i = combined_text (ds ! i) (ts ! i)"
    using l by simp
  moreover have "\<forall>d t. combined_text (Some d) (Some t) = Some (d @ text_of '' '' @ sub_colon t)"
    by (simp add: combined_text_def)
  moreover have "\<forall>t. combined_text None t = None" by (simp add: combined_text_def)
  moreover have "\<forall>d. combined_text d None = None"
    by (simp add: combined_text_def split: option.splits)
  moreover have "\<forall>p a b c. is_digit a \<and> is_digit b \<and> is_digit c \<longrightarrow>
            sub_colon (p @ text_of '':'' @ [a, b, c]) = p @ text_of ''.'' @ [a, b, c] \<and>
            sub_colon (p @ text_of '':'' @ [a, b, c, 10]) = p @ text_of ''.'' @ [a, b, c, 10]"
    using sub_colon_final sub_colon_final_newline by (simp add: text_of_literals)
  moreover have "\<forall>t. \<not> (\<exists>p a b c. is_digit a \<and> is_digit b \<and> is_digit c \<and>
                 (t = p @ text_of '':'' @ [a, b, c] \<or> t = p @ text_of '':'' @ [a, b, c, 10])) \<longrightarrow>
              sub_colon t = t"
    using sub_colon_unchanged by (simp add: text_of_literals)
  ultimately show ?thesis using process_time_ok [OF date time, of to_datetime] by blast
qed

theorem datetime_is_column_parse_witness:
  "process_time demo_to_datetime (garbled_flight 2) =
     Inr (setitem (setitem (garbled_flight 2) ''time''
                     (ObjCol [Some (text_of ''bad''), Some (text_of ''12:00:01.250'')]))
            ''datetime'' (TimeCol [None, Some (text_of ''2024-05-01 12:00:01.250'')])) \<and>
   sub_colon (text_of ''12:00:01:250'') = text_of ''12:00:01.250'' \<and>
   sub_colon (text_of ''bad'') = text_of ''bad''"
proof -
  have wf: "wf_table (garbled_flight 2)" by code_simp
  have date: "map_of (columns (garbled_flight 2)) ''date'' =
                Some (ObjCol [Some (text_of ''2024-05-01''), Some (text_of ''2024-05-01'')])"
    by code_simp
  have time: "map_of (columns (garbled_flight 2)) ''time'' =
                Some (ObjCol [Some (text_of ''bad''), Some (text_of ''12:00:01:250'')])"
    by code_simp
  have s: "sub_colon (text_of ''12:00:01:250'') = text_of ''12:00:01.250''"
    "sub_colon (text_of ''bad'') = text_of ''bad''"
    by code_simp+
  have c: "demo_to_datetime
             (map2 combined_text [Some (text_of ''2024-05-01''), Some (text_of ''2024-05-01'')]
                [Some (text_of ''bad''), Some (text_of ''12:00:01:250'')]) =
           [None, Some (text_of ''2024-05-01 12:00:01.250'')]"
    by code_simp
  from datetime_is_column_parse [OF wf date time, of demo_to_datetime]
  have "process_time demo_to_datetime (garbled_flight 2) =
          Inr (setitem (setitem (garbled_flight 2) ''time''
                 (ObjCol (map (map_option sub_colon) [Some (text_of ''bad''), Some (text_of ''12:00:01:250'')])))
               ''datetime'' (TimeCol (demo_to_datetime
                  (map2 combined_text [Some (text_of ''2024-05-01''), Some (text_of ''2024-05-01'')]
                     [Some (text_of ''bad''), Some (text_of ''12:00:01:250'')]))))"
    by blast
  then show ?thesis unfolding c using s by simp
qed

text \<open>
  The claim as stated fails. In a flight of ten rows with the time of the first row in
  milliseconds and the others in whole seconds, the derived value of every row but the
  first is null, while the parse of such a row's combined text on its own is a timestamp.
\<close>

theorem row_value_depends_on_column_counterexample:
  "process_time demo_to_datetime (mixed_flight 10) =
     Inr (setitem (setitem (mixed_flight 10) ''time''
                     (ObjCol (Some (text_of ''12:00:01.250'') # replicate 9 (Some (text_of ''12:00:02'')))))
            ''datetime''
            (TimeCol (Some (text_of ''2024-05-01 12:00:01.250'') # replicate 9 None))) \<and>
   combined_text (Some (text_of ''2024-05-01'')) (Some (text_of ''12:00:02'')) =
     Some (text_of ''2024-05-01 12:00:02'') \<and>
   demo_to_datetime [Some (text_of ''2024-05-01 12:00:02'')] = [Some (text_of ''2024-05-01 12:00:02'')]"
  by code_simp




section \<open>The page run\<close>

lemma running_ended: "ending s \<noteq> Running \<Longrightarrow> running p s = s"
  by (simp add: running_def)

lemma foldl_running_ended:
  "ending s \<noteq> Running \<Longrightarrow> foldl (\<lambda>s p. running p s) s ps = s"
  by (induction ps) (simp_all add: running_ended)

lemma str_nat_0: "str_nat 0 = ''0''"
  by code_simp

lemma script_empty:
  assumes "nrows df = 0"
  shows "script L df dataset_name =
           \<lparr>shown = [Title ''Rocket Telemetry Dashboard'', Header ''Flight Data Filters'',
                     Markdown (''### Currently loaded dataset: **'' @ dataset_name @ ''**''),
                     Write (''Dataset: '' @ dataset_name),
                     Write ''Total Records: 0'',
                     Warning ''No data found in dataset.''],
            ending = Stopped, current = df\<rparr>"
proof -
  let ?s0 = "\<lparr>shown = [Title ''Rocket Telemetry Dashboard'', Header ''Flight Data Filters''],
              ending = Running, current = df\<rparr>"
  let ?s2 = "running empty_check (running (report dataset_name) ?s0)"
  have s2: "?s2 = \<lparr>shown = [Title ''Rocket Telemetry Dashboard'', Header ''Flight Data Filters'',
                     Markdown (''### Currently loaded dataset: **'' @ dataset_name @ ''**''),
                     Write (''Dataset: '' @ dataset_name),
                     Write ''Total Records: 0'',
                     Warning ''No data found in dataset.''],
            ending = Stopped, current = df\<rparr>"
    using assms
    by (simp add: running_def report_def emits_def empty_check_def df_empty_def str_nat_0)
  obtain rest where st: "steps L dataset_name = report dataset_name # empty_check # rest"
    by (simp add: steps_def)
  have "script L df dataset_name = foldl (\<lambda>s p. running p s) ?s2 rest"
    by (simp add: script_def st)
  also have "\<dots> = ?s2" by (rule foldl_running_ended) (simp add: s2)
  finally show ?thesis using s2 by simp
qed

text \<open>
  Claim C4. When the loaded table has no row, the page run shows the warning and stops
  there: what is shown ends with the warning and holds no figure, and the table is the
  loaded one, with no timestamp processing applied.
\<close>

theorem empty_dataset_halts:
  assumes "load_dataset L selected_dataset uploaded_file = Inr (df, dataset_name)"
    and "nrows df = 0"
  shows "\<exists>s. main L selected_dataset uploaded_file = Inr s \<and>
           ending s = Stopped \<and>
           shown s = [Title ''Rocket Telemetry Dashboard'', Header ''Flight Data Filters'',
                      Markdown (''### Currently loaded dataset: **'' @ dataset_name @ ''**''),
                      Write (''Dataset: '' @ dataset_name),
                      Write ''Total Records: 0'',
                      Warning ''No data found in dataset.''] \<and>
           charts (shown s) = [] \<and>
           current s = df"
  using assms by (simp add: main_def script_empty)

theorem empty_dataset_halts_witness:
  "\<exists>s. main demo_lib ''Ideal Launch'' (Some (flight 0)) = Inr s \<and>
     ending s = Stopped \<and> charts (shown s) = [] \<and> current s = flight 0 \<and>
     last (shown s) = Warning ''No data found in dataset.''"
proof -
  have l: "load_dataset demo_lib ''Ideal Launch'' (Some (flight 0)) = Inr (flight 0, ''Uploaded Data'')"
    by (simp add: load_dataset_def demo_lib_def)
  have n: "nrows (flight 0) = 0" by (simp add: flight_def)
  from empty_dataset_halts [OF l n] show ?thesis by auto
qed

text \<open>
  Claim C8. With an uploaded file the page run is the same whatever bundled dataset is
  selected: it is the script on the table read from the upload, under the name
  \<^verbatim>\<open>Uploaded Data\<close>. The selection is used only without an upload, where the run is the
  script on the table read from the selected path.
\<close>

theorem upload_takes_precedence:
  "main L selected_dataset (Some f) = main L other_dataset (Some f) \<and>
   main L selected_dataset (Some f) =
     and_then (lib_read_csv L (Upload f)) (\<lambda>df. Inr (script L df ''Uploaded Data'')) \<and>
   main L selected_dataset None =
     (case map_of DATA_SOURCES selected_dataset of
        None \<Rightarrow> Inl KeyError
      | Some DB_PATH \<Rightarrow>
          and_then (lib_read_csv L (Path DB_PATH)) (\<lambda>df. Inr (script L df selected_dataset)))"
proof -
  have "main L s (Some f) =
          and_then (lib_read_csv L (Upload f)) (\<lambda>df. Inr (script L df ''Uploaded Data''))" for s
    by (cases "lib_read_csv L (Upload f)") (simp_all add: main_def load_dataset_def)
  moreover have "main L selected_dataset None =
     (case map_of DATA_SOURCES selected_dataset of
        None \<Rightarrow> Inl KeyError
      | Some DB_PATH \<Rightarrow>
          and_then (lib_read_csv L (Path DB_PATH)) (\<lambda>df. Inr (script L df selected_dataset)))"
    by (cases "map_of DATA_SOURCES selected_dataset";
        cases "lib_read_csv L (Path (the (map_of DATA_SOURCES selected_dataset)))")
       (simp_all add: main_def load_dataset_def load_data_def)
  ultimately show ?thesis by simp
qed

theorem upload_takes_precedence_witness:
  "main demo_lib ''Ideal Launch'' (Some (flight 3)) = main demo_lib ''Sensor Data'' (Some (flight 3)) \<and>
   main demo_lib ''Ideal Launch'' (Some (flight 3)) = Inr (script demo_lib (flight 3) ''Uploaded Data'') \<and>
   main demo_lib ''Ideal Launch'' None = Inr (script demo_lib (flight 12) ''Ideal Launch'') \<and>
   main demo_lib ''Sensor Data'' None = Inl ReadError"
proof -
  have u: "lib_read_csv demo_lib (Upload df) = Inr df" for df by (simp add: demo_lib_def)
  have p: "lib_read_csv demo_lib (Path ''database/ideal_rocket_launch.csv'') = Inr (flight 12)"
    "lib_read_csv demo_lib (Path ''database/sensor_data_mock.csv'') = Inl ReadError"
    by (simp_all add: demo_lib_def)
  from upload_takes_precedence [of demo_lib "''Ideal Launch''" "flight 3" "''Sensor Data''"]
    upload_takes_precedence [of demo_lib "''Sensor Data''" "flight 3" "''Sensor Data''"]
  show ?thesis by (simp add: u p DATA_SOURCES_def)
qed

section \<open>Writes to the table, and the run past a parsing failure\<close>

lemma current_emits [simp]: "current (emits us s) = current s"
  by (simp add: emits_def)

lemma current_plotly_chart [simp]: "current (plotly_chart r s) = current s"
  by (cases r) (simp_all add: plotly_chart_def raise_or_def)

lemma current_report [simp]: "current (report dataset_name s) = current s"
  by (simp add: report_def)

lemma current_empty_check [simp]: "current (empty_check s) = current s"
  by (simp add: empty_check_def)

lemma current_parsing_issues [simp]: "current (parsing_issues s) = current s"
  by (cases "getitem (current s) ''datetime''") (simp_all add: parsing_issues_def raise_or_def)

lemma current_running: "(\<And>s. current (p s) = current s) \<Longrightarrow> current (running p s) = current s"
  by (simp add: running_def)

lemma read_only_emits: "read_only (emits us)"
  by (simp add: read_only_def)

lemma read_only_parsing_issues: "read_only parsing_issues"
  by (simp add: read_only_def)

lemma read_only_trajectory_chart: "read_only (trajectory_chart L)"
  by (simp add: read_only_def trajectory_chart_def)

lemma read_only_live_chart: "read_only (live_chart L sub y_cols y_label)"
  by (simp add: read_only_def live_chart_def)

lemma read_only_static_chart: "read_only (static_chart px sub ys title)"
  by (simp add: read_only_def static_chart_def)

lemma foldl_read_only:
  "\<forall>p\<in>set ps. read_only p \<Longrightarrow> current (foldl (\<lambda>s p. running p s) s ps) = current s"
proof (induction ps arbitrary: s)
  case Nil
  then show ?case by simp
next
  case (Cons p ps)
  then have "current (running p s) = current s"
    by (simp add: read_only_def running_def)
  with Cons show ?case by simp
qed

lemma fix_time_cases:
  "(\<exists>e. fix_time df = Inl e) \<or>
   (\<exists>ts. map_of (columns df) ''time'' = Some (ObjCol ts) \<and>
      fix_time df = Inr (setitem df ''time'' (ObjCol (map (map_option sub_colon) ts))))"
proof (cases "map_of (columns df) ''time''")
  case None
  then show ?thesis by (simp add: fix_time_def getitem_def)
next
  case (Some col)
  then show ?thesis by (cases col) (simp_all add: fix_time_def getitem_def)
qed

lemma merge_datetime_cases:
  "(\<exists>e. merge_datetime to_datetime df = Inl e) \<or>
   (\<exists>dts. merge_datetime to_datetime df = Inr (setitem df ''datetime'' (TimeCol dts)))"
proof (cases "merge_datetime to_datetime df")
  case (Inl e)
  then show ?thesis by simp
next
  case (Inr df')
  then show ?thesis
    by (auto simp: merge_datetime_def and_then_Inr_iff)
qed

lemma script_current:
  "current (script L df dataset_name) = df \<or>
   (\<exists>ts. map_of (columns df) ''time'' = Some (ObjCol ts) \<and>
      (current (script L df dataset_name) =
         setitem df ''time'' (ObjCol (map (map_option sub_colon) ts)) \<or>
       (\<exists>dts. current (script L df dataset_name) =
          setitem (setitem df ''time'' (ObjCol (map (map_option sub_colon) ts)))
            ''datetime'' (TimeCol dts))))"
proof -
  let ?s0 = "\<lparr>shown = [Title ''Rocket Telemetry Dashboard'', Header ''Flight Data Filters''],
              ending = Running, current = df\<rparr>"
  define s2 where "s2 = running empty_check (running (report dataset_name) ?s0)"
  define s3 where "s3 = running fix_time_line s2"
  define s4 where "s4 = running (merge_datetime_line L) s3"
  obtain rest where st: "steps L dataset_name =
      report dataset_name # empty_check # fix_time_line # merge_datetime_line L # rest"
    and ro: "\<forall>p\<in>set rest. read_only p"
    by (simp add: steps_def read_only_emits read_only_parsing_issues read_only_trajectory_chart
        read_only_live_chart read_only_static_chart)
  have fin: "current (script L df dataset_name) = current s4"
    using foldl_read_only [OF ro, of s4] by (simp add: script_def st s4_def s3_def s2_def)
  have c2: "current s2 = df"
    by (simp add: s2_def current_running)
  have c3: "current s3 = df \<or>
     (\<exists>ts. map_of (columns df) ''time'' = Some (ObjCol ts) \<and>
        current s3 = setitem df ''time'' (ObjCol (map (map_option sub_colon) ts)))"
    using fix_time_cases [of df] c2
    by (auto simp: s3_def running_def fix_time_line_def raise_or_def)
  have c4: "current s4 = current s3 \<or>
     (ending s3 = Running \<and> (\<exists>dts. current s4 = setitem (current s3) ''datetime'' (TimeCol dts)))"
    using merge_datetime_cases [of "lib_to_datetime L" "current s3"]
    by (auto simp: s4_def running_def merge_datetime_line_def raise_or_def)
  have r3: "ending s3 = Running \<Longrightarrow> current s3 \<noteq> df \<or> (\<exists>ts. map_of (columns df) ''time'' = Some (ObjCol ts) \<and>
        current s3 = setitem df ''time'' (ObjCol (map (map_option sub_colon) ts)))"
    using fix_time_cases [of df] c2
    by (auto simp: s3_def running_def fix_time_line_def raise_or_def)
  from c3 c4 r3 show ?thesis unfolding fin by metis
qed


text \<open>
  Claim C7, as amended. After the table is loaded the script writes to it at two places
  only: line 62 overwrites the \<^verbatim>\<open>time\<close> column with its normalised text and line 65 stores
  the \<^verbatim>\<open>datetime\<close> column. Whatever the run does, the row count and every other column
  of the table at the end are those of the loaded table, the \<^verbatim>\<open>time\<close> column is the loaded
  one or its normalised text, and every step after line 65 (the warning, the charts, the
  footer) leaves the table as it is.
\<close>

theorem only_time_and_datetime_written:
  "nrows (current (script L df dataset_name)) = nrows df \<and>
   (\<forall>c. c \<noteq> ''time'' \<and> c \<noteq> ''datetime'' \<longrightarrow>
      map_of (columns (current (script L df dataset_name))) c = map_of (columns df) c) \<and>
   (map_of (columns (current (script L df dataset_name))) ''time'' = map_of (columns df) ''time'' \<or>
    (\<exists>ts. map_of (columns df) ''time'' = Some (ObjCol ts) \<and>
       map_of (columns (current (script L df dataset_name))) ''time'' =
         Some (ObjCol (map (map_option sub_colon) ts)))) \<and>
   (\<forall>p\<in>set (drop 4 (steps L dataset_name)). read_only p)"
proof -
  have ro: "\<forall>p\<in>set (drop 4 (steps L dataset_name)). read_only p"
    by (simp add: steps_def read_only_emits read_only_parsing_issues read_only_trajectory_chart
        read_only_live_chart read_only_static_chart)
  from script_current [of L df dataset_name] ro show ?thesis
    by (auto simp: map_of_setitem)
qed

theorem only_time_and_datetime_written_witness:
  "nrows (current (script demo_lib (flight 10) ''Ideal Launch'')) = 10 \<and>
   map_of (columns (current (script demo_lib (flight 10) ''Ideal Launch''))) ''alt'' =
     map_of (columns (flight 10)) ''alt'' \<and>
   read_only (trajectory_chart demo_lib)"
proof -
  have n: "nrows (flight 10) = 10" by (simp add: flight_def)
  have m: "trajectory_chart demo_lib \<in> set (drop 4 (steps demo_lib ''Ideal Launch''))"
    by (simp add: steps_def)
  from only_time_and_datetime_written [of demo_lib "flight 10" "''Ideal Launch''"] n m
  show ?thesis by auto
qed

text \<open>
  The claim as stated fails: on a flight of ten rows the run completes and the \<^verbatim>\<open>time\<close>
  column of the loaded table has been overwritten.
\<close>

theorem time_column_overwritten_counterexample:
  "map_of (columns (flight 10)) ''time'' = Some (ObjCol (replicate 10 (Some (text_of ''12:00:01:250'')))) \<and>
   map_of (columns (current (script demo_lib (flight 10) ''Ideal Launch''))) ''time'' =
     Some (ObjCol (replicate 10 (Some (text_of ''12:00:01.250'')))) \<and>
   ending (script demo_lib (flight 10) ''Ideal Launch'') = Running"
  by code_simp

text \<open>
  Claim C2 fails on the code. An uploaded flight of ten rows whose first row has an
  unreadable time: the warning and the table of the failing row are shown, the row stays
  in the table with a null timestamp, the trajectory chart is drawn, and the first 2D
  chart raises \<^verbatim>\<open>ValueError\<close> at the label of its first slider step, so none of the eight
  remaining charts is rendered. The same flight with readable times renders all nine.
\<close>

theorem unparsed_row_ends_rendering:
  "nrows (garbled_flight 10) = 10 \<and>
   shown (script demo_lib (garbled_flight 10) ''Uploaded Data'') ! 5 =
     Warning ''Some datetime values could not be parsed.'' \<and>
   (case shown (script demo_lib (garbled_flight 10) ''Uploaded Data'') ! 6 of
      Dataframe failing \<Rightarrow>
        nrows failing = 1 \<and> map_of (columns failing) ''time'' = Some (ObjCol [Some (text_of ''bad'')])
    | other \<Rightarrow> False) \<and>
   nrows (current (script demo_lib (garbled_flight 10) ''Uploaded Data'')) = 10 \<and>
   map_of (columns (current (script demo_lib (garbled_flight 10) ''Uploaded Data''))) ''time'' =
     Some (ObjCol (Some (text_of ''bad'') # replicate 9 (Some (text_of ''12:00:01.250'')))) \<and>
   map_of (columns (current (script demo_lib (garbled_flight 10) ''Uploaded Data''))) ''datetime'' =
     Some (TimeCol (None # replicate 9 (Some (text_of ''2024-05-01 12:00:01.250'')))) \<and>
   ending (script demo_lib (garbled_flight 10) ''Uploaded Data'') = Raised ValueError \<and>
   length (charts (shown (script demo_lib (garbled_flight 10) ''Uploaded Data''))) = 1 \<and>
   last (shown (script demo_lib (garbled_flight 10) ''Uploaded Data'')) =
     Subheader ''Altitude over Time'' \<and>
   ending (script demo_lib (flight 10) ''Uploaded Data'') = Running \<and>
   length (charts (shown (script demo_lib (flight 10) ''Uploaded Data''))) = 9"
  by code_simp

end
